theory Spec2Isabelle
  imports Complex_Main "HOL-Library.AList" "HOL-Library.Char_ord" "HOL-Library.List_Lexorder"
begin

section \<open>Values shared by the three stages\<close>

text \<open>
  The three scripts exchange JSON documents. A parsed JSON value is modelled by the
  datatype \<open>json\<close>; a Python \<open>dict\<close> is an association list that is read with
  \<open>map_of\<close> and written with \<open>AList.update\<close> (replace in place, or append a new key
  at the end, as a Python dict does).

  Numbers: a Python \<open>int\<close> and a finite \<open>float\<close> are modelled by the real number that
  is their value (\<open>JNum\<close>); infinities and NaN are outside the model. Comparisons of
  Python numbers are exact, and so are \<open>max\<close>, \<open>min\<close> and \<open>abs\<close>: these are the
  operations of the reals. Whatever else the scripts compute on numbers (\<open>float(s)\<close>,
  \<open>statistics.mean\<close>, \<open>statistics.stdev\<close>, \<open>round(x, 2)\<close>, the operators \<open>-\<close>, \<open>/\<close>,
  \<open>*\<close> and the rendering of a float in an f-string) is library code that rounds to a
  binary float; it is a parameter of the model (\<open>to_float\<close> in the cleaning stage, the
  record \<open>pylib\<close> in the analysis stage), and what is proved holds for every value of
  the parameter.

  Strings: a Python \<open>str\<close> is modelled as a \<open>string\<close>, each \<open>char\<close> standing for a
  code point below 256. The character classes below are Python's for that range.
\<close>

datatype json =
    JNull
  | JBool bool
  | JNum real
  | JStr string
  | JArr "json list"
  | JObj "(string \<times> json) list"

type_synonym item = "(string \<times> json) list"

datatype py_error = KeyError | TypeError | AttributeError | ValueError | OverflowError

text \<open>Python truth value of a parsed JSON value (\<open>if x:\<close>, \<open>any(...)\<close>).\<close>

fun truthy :: "json \<Rightarrow> bool" where
  "truthy JNull = False"
| "truthy (JBool b) = b"
| "truthy (JNum x) = (x \<noteq> 0)"
| "truthy (JStr s) = (s \<noteq> [])"
| "truthy (JArr xs) = (xs \<noteq> [])"
| "truthy (JObj kvs) = (kvs \<noteq> [])"

subsection \<open>String methods of Python used by the scripts\<close>

text \<open>\<open>str.isspace\<close> on one character: TAB, LF, VT, FF, CR, the separators
  0x1C..0x1F, SPACE, NEL (0x85) and NBSP (0xA0).\<close>

definition py_isspace :: "char \<Rightarrow> bool" where
  "py_isspace c = (let n = (of_char c :: nat) in
     (9 \<le> n \<and> n \<le> 13) \<or> (28 \<le> n \<and> n \<le> 32) \<or> n = 133 \<or> n = 160)"

text \<open>\<open>s.strip()\<close>: whitespace removed at both ends.\<close>

definition py_strip :: "string \<Rightarrow> string" where
  "py_strip s = rev (dropWhile py_isspace (rev (dropWhile py_isspace s)))"

text \<open>\<open>s.replace(c, '')\<close> for a one-character \<open>c\<close>.\<close>

definition py_remove :: "char \<Rightarrow> string \<Rightarrow> string" where
  "py_remove c s = filter (\<lambda>d. d \<noteq> c) s"

text \<open>The decimal digits \<open>0\<close>..\<open>9\<close> (Unicode category Nd below 256).\<close>

definition is_dec_digit :: "char \<Rightarrow> bool" where
  "is_dec_digit c = (let n = (of_char c :: nat) in 48 \<le> n \<and> n \<le> 57)"

text \<open>\<open>str.isdigit\<close>: the string is not empty and every character is a digit. Below
  256 Python counts the superscripts 0xB2, 0xB3 and 0xB9 as digits too.\<close>

definition py_isdigit_char :: "char \<Rightarrow> bool" where
  "py_isdigit_char c = (let n = (of_char c :: nat) in
     (48 \<le> n \<and> n \<le> 57) \<or> n = 178 \<or> n = 179 \<or> n = 185)"

definition py_isdigit :: "string \<Rightarrow> bool" where
  "py_isdigit s = (s \<noteq> [] \<and> list_all py_isdigit_char s)"

text \<open>\<open>str.lower\<close>: A..Z and the Latin-1 capitals 0xC0..0xDE (but the multiplication
  sign 0xD7) move up by 32.\<close>

definition py_lower_char :: "char \<Rightarrow> char" where
  "py_lower_char c = (let n = (of_char c :: nat) in
     if (65 \<le> n \<and> n \<le> 90) \<or> (192 \<le> n \<and> n \<le> 222 \<and> n \<noteq> 215)
     then char_of (n + 32) else c)"

definition py_lower :: "string \<Rightarrow> string" where
  "py_lower s = map py_lower_char s"

subsection \<open>The library of the analysis stage\<close>

text \<open>
  What \<open>Analysis.py\<close> calls on numbers, apart from comparisons, \<open>max\<close>, \<open>min\<close> and
  \<open>abs\<close>: \<open>statistics.mean\<close>, \<open>statistics.stdev\<close>, \<open>round(x, 2)\<close>, the operators
  \<open>-\<close>, \<open>/\<close>, \<open>*\<close>, and the rendering \<open>str(x)\<close> of a number in an f-string.
  Each is a function of the numbers it is given and returns a number: a call that
  raises, as the library does on numbers beyond the range of a float, is outside the
  model.
\<close>

record pylib =
  lib_mean :: "real list \<Rightarrow> real"
  lib_stdev :: "real list \<Rightarrow> real"
  lib_round2 :: "real \<Rightarrow> real"
  lib_sub :: "real \<Rightarrow> real \<Rightarrow> real"
  lib_div :: "real \<Rightarrow> real \<Rightarrow> real"
  lib_mul :: "real \<Rightarrow> real \<Rightarrow> real"
  lib_str :: "real \<Rightarrow> string"

subsection \<open>The library without rounding\<close>

text \<open>
  \<open>exact_lib\<close> is the library computed in the reals, with no rounding to a binary
  float: the mean and the sample standard deviation, rounding to the nearest hundredth
  (a tie going to the even one), the operators of the reals, and the rendering of a
  whole number of hundredths as Python prints it (\<open>50.0\<close>, \<open>12.5\<close>, \<open>33.33\<close>).
  \<open>decimal_value\<close> is the exact value of a decimal literal that \<open>float(s)\<close> accepts,
  by Python's grammar
  \<^verbatim>\<open>[sign] ( [digitpart] "." digitpart | digitpart ["."] ) [("e"|"E") [sign] digitpart]\<close>
  (a digitpart is digits with single underscores allowed between two digits), and
  \<open>None\<close> for any other string. Python returns the binary float nearest to these
  values. They are not the code: they instantiate the parameters in the examples,
  where Python's result prints as the value given.
\<close>

fun digitpart_ok :: "string \<Rightarrow> bool" where
  "digitpart_ok [] = False"
| "digitpart_ok [c] = is_dec_digit c"
| "digitpart_ok (c # d # cs) =
     (is_dec_digit c \<and>
      (if d = CHR ''_'' then cs \<noteq> [] \<and> digitpart_ok cs else digitpart_ok (d # cs)))"

definition digits_of :: "string \<Rightarrow> string" where
  "digits_of s = filter is_dec_digit s"

definition digits_val :: "string \<Rightarrow> nat" where
  "digits_val s = foldl (\<lambda>a c. 10 * a + ((of_char c :: nat) - 48)) 0 (digits_of s)"

definition split_sign :: "string \<Rightarrow> bool \<times> string" where
  "split_sign s = (case s of
       c # cs \<Rightarrow> if c = CHR ''-'' then (True, cs) else if c = CHR ''+'' then (False, cs) else (False, s)
     | [] \<Rightarrow> (False, s))"

definition mantissa_val :: "string \<Rightarrow> real option" where
  "mantissa_val m =
     (let ip = takeWhile (\<lambda>c. c \<noteq> CHR ''.'') m; rest = dropWhile (\<lambda>c. c \<noteq> CHR ''.'') m in
      if rest = [] then (if digitpart_ok ip then Some (real (digits_val ip)) else None)
      else (let fp = tl rest in
        if (ip = [] \<or> digitpart_ok ip) \<and> (fp = [] \<or> digitpart_ok fp) \<and> \<not> (ip = [] \<and> fp = [])
        then Some (real (digits_val ip) + real (digits_val fp) / 10 ^ length (digits_of fp))
        else None))"

definition exponent_val :: "string \<Rightarrow> (bool \<times> nat) option" where
  "exponent_val e = (case split_sign e of (neg, ds) \<Rightarrow>
     if digitpart_ok ds then Some (neg, digits_val ds) else None)"

definition is_exp_char :: "char \<Rightarrow> bool" where
  "is_exp_char c = (c = CHR ''e'' \<or> c = CHR ''E'')"

definition decimal_value :: "string \<Rightarrow> real option" where
  "decimal_value s0 = (case split_sign (py_strip s0) of (neg, s) \<Rightarrow>
     (let m = takeWhile (\<lambda>c. \<not> is_exp_char c) s; rest = dropWhile (\<lambda>c. \<not> is_exp_char c) s in
      case mantissa_val m of
        None \<Rightarrow> None
      | Some v \<Rightarrow>
         (let sg = (if neg then - v else v) in
          if rest = [] then Some sg
          else (case exponent_val (tl rest) of
                  None \<Rightarrow> None
                | Some (eneg, k) \<Rightarrow> Some (if eneg then sg / 10 ^ k else sg * 10 ^ k)))))"

definition round_half_even :: "real \<Rightarrow> int" where
  "round_half_even y =
     (let f = \<lfloor>y\<rfloor>; d = y - of_int f
      in if d < 1 / 2 then f else if 1 / 2 < d then f + 1 else if even f then f else f + 1)"

definition exact_round2 :: "real \<Rightarrow> real" where
  "exact_round2 x = of_int (round_half_even (x * 100)) / 100"

definition exact_mean :: "real list \<Rightarrow> real" where
  "exact_mean xs = sum_list xs / real (length xs)"

definition exact_stdev :: "real list \<Rightarrow> real" where
  "exact_stdev xs = sqrt (sum_list (map (\<lambda>x. (x - exact_mean xs)\<^sup>2) xs) / real (length xs - 1))"

fun digits_of_nat :: "nat \<Rightarrow> string" where
  "digits_of_nat n =
     (if n < 10 then [char_of (48 + n)] else digits_of_nat (n div 10) @ [char_of (48 + n mod 10)])"

definition hundredths_str :: "real \<Rightarrow> string" where
  "hundredths_str x =
     (let k = nat \<lfloor>\<bar>x\<bar> * 100\<rfloor>; ip = k div 100; fp = k mod 100
      in (if x < 0 then ''-'' else []) @ digits_of_nat ip @ ''.'' @
         (if fp mod 10 = 0 then digits_of_nat (fp div 10)
          else digits_of_nat (fp div 10) @ digits_of_nat (fp mod 10)))"

definition exact_lib :: pylib where
  "exact_lib =
     \<lparr>lib_mean = exact_mean, lib_stdev = exact_stdev, lib_round2 = exact_round2,
      lib_sub = (\<lambda>x y. x - y), lib_div = (\<lambda>x y. x / y), lib_mul = (\<lambda>x y. x * y),
      lib_str = hundredths_str\<rparr>"

section \<open>Stage 2: cleaning (\<open>Final_cleaning.py\<close>)\<close>

text \<open>
  \<open>clean_data\<close> reads every input file line by line. \<open>json.loads\<close>, \<open>float\<close> and
  \<open>dateutil.parser.parse\<close> are library code. A line is given by what \<open>json.loads\<close>
  makes of it (\<open>None\<close> when it raises \<open>JSONDecodeError\<close>, and a \<open>JObj\<close> has distinct
  keys). The parameter \<open>to_float\<close> is \<open>float(s)\<close>: the float returned, or \<open>None\<close> when
  it raises \<open>ValueError\<close> (a literal that overflows to an infinity, such as \<open>1.0e400\<close>,
  is outside the model, as every infinity is). The parameter \<open>isofmt\<close> is the date parser followed by
  \<open>isoformat()\<close>: the ISO rendering, or the exception raised (\<open>dateutil\<close> documents
  \<open>ValueError\<close>, \<open>TypeError\<close> and \<open>OverflowError\<close>).
\<close>

text \<open>Lines 28 to 35: the price, when it is a string.\<close>

definition normalize_price :: "(string \<Rightarrow> real option) \<Rightarrow> item \<Rightarrow> item" where
  "normalize_price to_float item =
     (case map_of item ''price'' of
        Some (JStr s) \<Rightarrow>
          (let s' = py_strip (py_remove (CHR '','') (py_remove (CHR ''$'') s));
               item1 = AList.update ''price'' (JStr s') item
           in if py_isdigit s' \<or> CHR ''.'' \<in> set s'
              then (case to_float s' of
                      Some v \<Rightarrow> AList.update ''price'' (JNum v) item1
                    | None \<Rightarrow> AList.update ''price'' JNull item1)
              else item1)
      | _ \<Rightarrow> item)"

text \<open>Lines 38 to 43: the capture time, when it is present and truthy. The \<open>except\<close>
  clause catches \<open>ValueError\<close> and \<open>TypeError\<close>; any other exception of the parser
  leaves the function.\<close>

definition normalize_fetch_time :: "(json \<Rightarrow> py_error + string) \<Rightarrow> item \<Rightarrow> py_error + item" where
  "normalize_fetch_time isofmt item =
     (case map_of item ''fetch_time'' of
        Some v \<Rightarrow>
          (if truthy v
           then (case isofmt v of
                   Inr t \<Rightarrow> Inr (AList.update ''fetch_time'' (JStr t) item)
                 | Inl ValueError \<Rightarrow> Inr (AList.update ''fetch_time'' JNull item)
                 | Inl TypeError \<Rightarrow> Inr (AList.update ''fetch_time'' JNull item)
                 | Inl e \<Rightarrow> Inl e)
           else Inr item)
      | None \<Rightarrow> Inr item)"

text \<open>Lines 46 to 51: the filter. \<open>item['title']\<close> raises \<open>KeyError\<close> when the key is
  missing; a title that is not a string is in neither list of strings, and its
  \<open>.lower()\<close> raises \<open>AttributeError\<close>. A JSON boolean is an \<open>int\<close> for
  \<open>isinstance\<close>, with value 0 or 1, which is below 99.\<close>

definition error_titles :: "string list" where
  "error_titles =
     [''301 Moved Permanently'', ''Robot Check'', ''Sorry! Something went wrong!'', ''No Title Found'']"

definition promo_titles :: "string list" where
  "promo_titles =
     [''amazon prime'', ''amazon prime day'', ''prime'', ''amazon best sellers'', ''best sellers'',
      ''cyber monday'', ''black friday'', ''error page'']"

definition year_like_prices :: "real list" where
  "year_like_prices = [2020, 2021, 2022, 2023, 2024, 1996]"

definition price_ok :: "item \<Rightarrow> bool" where
  "price_ok item =
     (case map_of item ''price'' of
        None \<Rightarrow> True
      | Some (JNum p) \<Rightarrow> 99 \<le> p \<and> p \<notin> set year_like_prices
      | Some _ \<Rightarrow> False)"

definition keep_item :: "item \<Rightarrow> py_error + bool" where
  "keep_item item =
     (case map_of item ''title'' of
        None \<Rightarrow> Inl KeyError
      | Some (JStr t) \<Rightarrow>
          Inr (t \<notin> set error_titles \<and> py_lower t \<notin> set promo_titles \<and> price_ok item)
      | Some _ \<Rightarrow> Inl AttributeError)"

text \<open>The body of the \<open>try\<close> for one parsed line: \<open>Inr (Some it)\<close> appends \<open>it\<close> to
  \<open>filtered_data\<close>, \<open>Inr None\<close> drops the line, \<open>Inl e\<close> is an exception that the
  \<open>except json.JSONDecodeError\<close> clause does not catch. A parsed value that is not an
  object raises \<open>TypeError\<close> at its first subscript or membership test.\<close>

definition clean_item ::
  "(string \<Rightarrow> real option) \<Rightarrow> (json \<Rightarrow> py_error + string) \<Rightarrow> json \<Rightarrow> py_error + item option" where
  "clean_item to_float isofmt v =
     (case v of
        JObj item \<Rightarrow>
          (case normalize_fetch_time isofmt (normalize_price to_float item) of
             Inl e \<Rightarrow> Inl e
           | Inr it \<Rightarrow>
               (case keep_item it of
                  Inl e \<Rightarrow> Inl e
                | Inr keep \<Rightarrow> Inr (if keep then Some it else None)))
      | _ \<Rightarrow> Inl TypeError)"

text \<open>The loop over the lines, with \<open>filtered_data\<close> as accumulator.\<close>

fun clean_lines ::
  "(string \<Rightarrow> real option) \<Rightarrow> (json \<Rightarrow> py_error + string) \<Rightarrow> json option list \<Rightarrow> item list
     \<Rightarrow> py_error + item list" where
  "clean_lines to_float isofmt [] acc = Inr acc"
| "clean_lines to_float isofmt (None # ls) acc = clean_lines to_float isofmt ls acc"
| "clean_lines to_float isofmt (Some v # ls) acc =
     (case clean_item to_float isofmt v of
        Inl e \<Rightarrow> Inl e
      | Inr None \<Rightarrow> clean_lines to_float isofmt ls acc
      | Inr (Some it) \<Rightarrow> clean_lines to_float isofmt ls (acc @ [it]))"

text \<open>\<open>clean_data\<close>: the files in order, each line in order. \<open>Inr out\<close> is the array
  written to the output file; with \<open>Inl e\<close> the exception leaves \<open>clean_data\<close> before
  the output file is opened.\<close>

definition clean_data ::
  "(string \<Rightarrow> real option) \<Rightarrow> (json \<Rightarrow> py_error + string) \<Rightarrow> json option list list
     \<Rightarrow> py_error + item list" where
  "clean_data to_float isofmt files = clean_lines to_float isofmt (concat files) []"

section \<open>Stage 1: extraction (\<open>final_data_extraction_s3.py\<close>)\<close>

text \<open>
  \<open>BeautifulSoup(html_content, 'html.parser')\<close> is library code: a page is given by
  the tree the parser returns, a list of top-level nodes. An element carries its tag
  name (lowercased by the parser), its attributes (a dict: each name once) and its
  children. A string of the tree carries the class the parser gave it: a plain
  \<open>NavigableString\<close>, a \<open>CData\<close>, the contents of a \<open>script\<close>, \<open>style\<close> or
  \<open>template\<close> element (\<open>Script\<close>, \<open>Stylesheet\<close>, \<open>TemplateString\<close>), of an \<open>rt\<close> or
  \<open>rp\<close> element (\<open>RubyTextString\<close>, \<open>RubyParenthesisString\<close>), or a comment,
  declaration, doctype or processing instruction (\<open>SpecialStr\<close>).
\<close>

datatype string_class =
    NavStr | CDataStr | ScriptStr | StylesheetStr | TemplateStr | RubyTextStr | RubyParenStr
  | SpecialStr

datatype node =
    Text string_class string
  | Elem string "(string \<times> string) list" "node list"

text \<open>The strings below a node, in document order, each with its class.\<close>

fun strings_of :: "node \<Rightarrow> (string_class \<times> string) list" where
  "strings_of (Text k s) = [(k, s)]"
| "strings_of (Elem t as cs) = concat (map strings_of cs)"

text \<open>The string classes that \<open>get_text\<close> keeps when it is called on an element with
  the given tag name (\<open>interesting_string_types\<close>): a \<open>script\<close>, \<open>style\<close>, \<open>template\<close>,
  \<open>rt\<close> or \<open>rp\<close> element keeps the strings of its own class, any other element and
  the document keep the plain strings and the \<open>CData\<close> ones.\<close>

definition interesting :: "string \<Rightarrow> string_class list" where
  "interesting t =
     (if t = ''script'' then [ScriptStr]
      else if t = ''style'' then [StylesheetStr]
      else if t = ''template'' then [TemplateStr]
      else if t = ''rt'' then [RubyTextStr]
      else if t = ''rp'' then [RubyParenStr]
      else [NavStr, CDataStr])"

text \<open>\<open>el.get_text()\<close>: the strings below the element that are of a class it keeps,
  joined in document order.\<close>

fun get_text :: "node \<Rightarrow> string" where
  "get_text (Text k s) = s"
| "get_text (Elem t as cs) =
     concat (map snd (filter (\<lambda>ks. fst ks \<in> set (interesting t)) (concat (map strings_of cs))))"

text \<open>The elements below a node (itself first), in document order: the order in
  which \<open>find\<close> and \<open>select_one\<close> search.\<close>

fun elements :: "node \<Rightarrow> node list" where
  "elements (Text k s) = []"
| "elements (Elem t as cs) = Elem t as cs # concat (map elements cs)"

definition soup_elements :: "node list \<Rightarrow> node list" where
  "soup_elements doc = concat (map elements doc)"

text \<open>\<open>soup.get_text()\<close>, the text of the whole document (its tag name is
  \<open>[document]\<close>).\<close>

definition soup_text :: "node list \<Rightarrow> string" where
  "soup_text doc = get_text (Elem ''[document]'' [] doc)"

text \<open>The value of the \<open>class\<close> attribute is a list of tokens separated by
  whitespace; \<open>split_ws cur s\<close> splits \<open>s\<close>, with \<open>cur\<close> the token being read.\<close>

fun split_ws :: "string \<Rightarrow> string \<Rightarrow> string list" where
  "split_ws cur [] = (if cur = [] then [] else [cur])"
| "split_ws cur (c # cs) =
     (if py_isspace c then (if cur = [] then split_ws [] cs else cur # split_ws [] cs)
      else split_ws (cur @ [c]) cs)"

fun has_tag :: "string \<Rightarrow> node \<Rightarrow> bool" where
  "has_tag t (Text k s) = False"
| "has_tag t (Elem t' as cs) = (t' = t)"

fun has_id :: "string \<Rightarrow> node \<Rightarrow> bool" where
  "has_id i (Text k s) = False"
| "has_id i (Elem t as cs) = (map_of as ''id'' = Some i)"

fun has_class :: "string \<Rightarrow> node \<Rightarrow> bool" where
  "has_class c (Text k s) = False"
| "has_class c (Elem t as cs) =
     (case map_of as ''class'' of None \<Rightarrow> False | Some v \<Rightarrow> c \<in> set (split_ws [] v))"

text \<open>\<open>soup.select_one("#a, #b")\<close>: the first element whose id is one of the listed
  ones. \<open>soup.find(tag)\<close>, \<open>soup.find(tag, {"class": c})\<close> and
  \<open>soup.find(tag, {"id": i})\<close>: the first element with that tag (and class or id).\<close>

definition select_one_ids :: "string list \<Rightarrow> node list \<Rightarrow> node option" where
  "select_one_ids ids doc = List.find (\<lambda>n. list_ex (\<lambda>i. has_id i n) ids) (soup_elements doc)"

definition find_tag :: "string \<Rightarrow> node list \<Rightarrow> node option" where
  "find_tag t doc = List.find (has_tag t) (soup_elements doc)"

definition find_tag_class :: "string \<Rightarrow> string \<Rightarrow> node list \<Rightarrow> node option" where
  "find_tag_class t c doc = List.find (\<lambda>n. has_tag t n \<and> has_class c n) (soup_elements doc)"

definition find_tag_id :: "string \<Rightarrow> string \<Rightarrow> node list \<Rightarrow> node option" where
  "find_tag_id t i doc = List.find (\<lambda>n. has_tag t n \<and> has_id i n) (soup_elements doc)"

text \<open>\<open>re.search(r'Title:\s*(.*)', text)\<close>, group 1: after the first \<open>Title:\<close>, the
  whitespace is skipped and the group runs to the end of that line. Both \<open>\s*\<close> and
  \<open>.*\<close> may be empty, so the first occurrence of \<open>Title:\<close> always matches.\<close>

fun re_title :: "string \<Rightarrow> string option" where
  "re_title [] = None"
| "re_title (c # cs) =
     (if take 6 (c # cs) = ''Title:''
      then Some (takeWhile (\<lambda>d. d \<noteq> CHR 0x0A) (dropWhile py_isspace (drop 6 (c # cs))))
      else re_title cs)"

text \<open>\<open>re.compile(r'\d+(?:\.\d{2})?').search(text)\<close>, the whole match: the first run
  of digits, with a following \<open>.\<close> and two digits when they are there.\<close>

fun re_price :: "string \<Rightarrow> string option" where
  "re_price [] = None"
| "re_price (c # cs) =
     (if is_dec_digit c
      then (let ds = takeWhile is_dec_digit (c # cs); rest = dropWhile is_dec_digit (c # cs)
            in Some (case rest of
                       d # a # b # _ \<Rightarrow>
                         if d = CHR ''.'' \<and> is_dec_digit a \<and> is_dec_digit b then ds @ [d, a, b] else ds
                     | _ \<Rightarrow> ds))
      else re_price cs)"

text \<open>Lines 55 to 70: the title. A \<open>Tag\<close> is always truthy, so a branch of the
  \<open>if\<close>/\<open>elif\<close> chain is taken as soon as its element exists.\<close>

definition extract_title :: "node list \<Rightarrow> string" where
  "extract_title doc =
     (case select_one_ids [''productTitle''] doc of
        Some e \<Rightarrow> py_strip (get_text e)
      | None \<Rightarrow>
     (case select_one_ids [''btAsinTitle''] doc of
        Some e \<Rightarrow> py_strip (get_text e)
      | None \<Rightarrow>
     (case find_tag_class ''h1'' ''title'' doc of
        Some e \<Rightarrow> py_strip (get_text e)
      | None \<Rightarrow>
     (case find_tag ''title'' doc of
        Some e \<Rightarrow> py_strip (get_text e)
      | None \<Rightarrow>
     (case find_tag ''h1'' doc of
        Some e \<Rightarrow> py_strip (get_text e)
      | None \<Rightarrow>
     (case re_title (soup_text doc) of
        Some g \<Rightarrow> py_strip g
      | None \<Rightarrow> []))))))"

text \<open>Lines 72 to 86: the price.\<close>

definition extract_price :: "node list \<Rightarrow> string" where
  "extract_price doc =
     (case select_one_ids [''priceblock_saleprice'', ''priceblock_ourprice'', ''priceblock_dealprice''] doc of
        Some e \<Rightarrow> py_strip (get_text e)
      | None \<Rightarrow>
     (case find_tag_class ''span'' ''a-price-whole'' doc of
        Some e \<Rightarrow> py_strip (get_text e)
      | None \<Rightarrow>
     (case find_tag_class ''span'' ''a-price'' doc of
        Some e \<Rightarrow> py_strip (get_text e)
      | None \<Rightarrow>
     (case find_tag_id ''span'' ''price_inside_buybox'' doc of
        Some e \<Rightarrow> py_strip (get_text e)
      | None \<Rightarrow>
     (case re_price (soup_text doc) of
        Some m \<Rightarrow> m
      | None \<Rightarrow> [])))))"

text \<open>Lines 88 to 92: the record returned.\<close>

definition extract_product_data :: "node list \<Rightarrow> item" where
  "extract_product_data doc =
     (let title = extract_title doc; price = extract_price doc
      in [(''title'', JStr (if title \<noteq> [] then title else ''No Title Found'')),
          (''price'', JStr (if price \<noteq> [] then price else ''No Price Found''))])"

text \<open>
  Lines 128 to 146 of \<open>process_parquet_files\<close>, for a row whose archive record gave a
  page \<open>doc\<close>. The row is the dict \<open>record_dict\<close>; \<open>to_datetime\<close> stands for
  \<open>pd.to_datetime(_, format=...)\<close> followed by \<open>isoformat()\<close>, with \<open>Inl ValueError\<close>
  the exception the inner \<open>try\<close> catches. \<open>Inr (Some r)\<close> appends \<open>r\<close> to
  \<open>extracted_data\<close>, \<open>Inr None\<close> is the branch that drops the row, and \<open>Inl e\<close> is an
  exception caught by the \<open>except Exception\<close> of the row.\<close>

definition process_row :: "(json \<Rightarrow> py_error + string) \<Rightarrow> item \<Rightarrow> node list \<Rightarrow> py_error + item option" where
  "process_row to_datetime record_dict doc =
     (let product_data = extract_product_data doc in
      case map_of record_dict ''url'' of
        None \<Rightarrow> Inl KeyError
      | Some url \<Rightarrow>
          (let pd1 = AList.update ''url'' url product_data;
               timed =
                 (case map_of record_dict ''fetch_time'' of
                    None \<Rightarrow> Inr pd1
                  | Some ft \<Rightarrow>
                      if truthy ft
                      then (case to_datetime ft of
                              Inr t \<Rightarrow> Inr (AList.update ''fetch_time'' (JStr t) pd1)
                            | Inl ValueError \<Rightarrow> Inr (AList.update ''fetch_time'' JNull pd1)
                            | Inl e \<Rightarrow> Inl e)
                      else Inr pd1)
           in case timed of
                Inl e \<Rightarrow> Inl e
              | Inr pd2 \<Rightarrow> Inr (if list_ex truthy (map snd pd2) then Some pd2 else None)))"

text \<open>
  The candidates of the two chains, in chain order: what each strategy takes when its
  element or match is present (\<open>None\<close> when it is absent). They serve to state how a
  chain chooses; \<open>extract_title\<close> and \<open>extract_price\<close> above are the code.
\<close>

definition title_candidates :: "node list \<Rightarrow> string option list" where
  "title_candidates doc =
     [map_option (\<lambda>e. py_strip (get_text e)) (select_one_ids [''productTitle''] doc),
      map_option (\<lambda>e. py_strip (get_text e)) (select_one_ids [''btAsinTitle''] doc),
      map_option (\<lambda>e. py_strip (get_text e)) (find_tag_class ''h1'' ''title'' doc),
      map_option (\<lambda>e. py_strip (get_text e)) (find_tag ''title'' doc),
      map_option (\<lambda>e. py_strip (get_text e)) (find_tag ''h1'' doc),
      map_option py_strip (re_title (soup_text doc))]"

definition price_candidates :: "node list \<Rightarrow> string option list" where
  "price_candidates doc =
     [map_option (\<lambda>e. py_strip (get_text e))
        (select_one_ids [''priceblock_saleprice'', ''priceblock_ourprice'', ''priceblock_dealprice''] doc),
      map_option (\<lambda>e. py_strip (get_text e)) (find_tag_class ''span'' ''a-price-whole'' doc),
      map_option (\<lambda>e. py_strip (get_text e)) (find_tag_class ''span'' ''a-price'' doc),
      map_option (\<lambda>e. py_strip (get_text e)) (find_tag_id ''span'' ''price_inside_buybox'' doc),
      re_price (soup_text doc)]"

text \<open>The first candidate that is present, whatever its text.\<close>

fun first_present :: "string option list \<Rightarrow> string option" where
  "first_present [] = None"
| "first_present (None # cs) = first_present cs"
| "first_present (Some t # cs) = Some t"

text \<open>The specification's reading of a chain, from its words (a chain returns "the
  first non-empty match"): the first candidate that is present and not empty.\<close>

fun spec_first_nonempty :: "string option list \<Rightarrow> string option" where
  "spec_first_nonempty [] = None"
| "spec_first_nonempty (None # cs) = spec_first_nonempty cs"
| "spec_first_nonempty (Some t # cs) = (if t \<noteq> [] then Some t else spec_first_nonempty cs)"

section \<open>Stage 3: analysis (\<open>Analysis.py\<close>)\<close>

text \<open>
  A year's bucket is the dict \<open>{'low': [], 'mid': [], 'high': []}\<close>, and the summary
  and the inflation table have the same three keys: a record with one field for each
  tier. The segment names of the loop \<open>for segment in ['low', 'mid', 'high']\<close> are
  the values of \<open>tier\<close>.
\<close>

record 'a by_tier =
  low :: 'a
  mid :: 'a
  high :: 'a

datatype tier = Low | Mid | High

fun tier_name :: "tier \<Rightarrow> string" where
  "tier_name Low = ''low''"
| "tier_name Mid = ''mid''"
| "tier_name High = ''high''"

fun tier_get :: "tier \<Rightarrow> 'a by_tier \<Rightarrow> 'a" where
  "tier_get Low b = low b"
| "tier_get Mid b = mid b"
| "tier_get High b = high b"

definition LOW_PRICE_THRESHOLD :: real where
  "LOW_PRICE_THRESHOLD = 300"

definition MID_PRICE_THRESHOLD :: real where
  "MID_PRICE_THRESHOLD = 700"

subsection \<open>\<open>calculate_statistics\<close>\<close>

text \<open>The result dict of \<open>calculate_statistics\<close>; its keys \<open>max\<close> and \<open>min\<close> are the
  fields \<open>maximum\<close> and \<open>minimum\<close>. \<open>None\<close> is Python's \<open>None\<close> (JSON \<open>null\<close>).\<close>

record stats =
  average :: "real option"
  maximum :: "real option"
  minimum :: "real option"
  stdev :: "real option"

fun calculate_statistics :: "pylib \<Rightarrow> real list \<Rightarrow> stats" where
  "calculate_statistics lib [] = \<lparr>average = None, maximum = None, minimum = None, stdev = None\<rparr>"
| "calculate_statistics lib (x # xs) =
     (let prices = x # xs
      in \<lparr>average = Some (lib_round2 lib (lib_mean lib prices)),
          maximum = Some (lib_round2 lib (foldl max x xs)),
          minimum = Some (lib_round2 lib (foldl min x xs)),
          stdev = (if length prices > 1 then Some (lib_round2 lib (lib_stdev lib prices))
                   else Some 0)\<rparr>)"

subsection \<open>\<open>analyze_data\<close>: segmenting\<close>

text \<open>\<open>yearly_price_segments\<close> is a \<open>defaultdict\<close>: reading a year that is missing
  gives three empty lists.\<close>

type_synonym segments = "(string \<times> real list by_tier) list"

definition bucket :: "segments \<Rightarrow> string \<Rightarrow> real list by_tier" where
  "bucket segs year =
     (case map_of segs year of Some b \<Rightarrow> b | None \<Rightarrow> \<lparr>low = [], mid = [], high = []\<rparr>)"

text \<open>\<open>yearly_price_segments[year][segment].append(price)\<close>.\<close>

definition append_price :: "segments \<Rightarrow> string \<Rightarrow> tier \<Rightarrow> real \<Rightarrow> segments" where
  "append_price segs year segment price =
     (let b = bucket segs year
      in AList.update year
           (case segment of
              Low \<Rightarrow> b\<lparr>low := low b @ [price]\<rparr>
            | Mid \<Rightarrow> b\<lparr>mid := mid b @ [price]\<rparr>
            | High \<Rightarrow> b\<lparr>high := high b @ [price]\<rparr>)
           segs)"

text \<open>Lines 75 to 80: the tier of a price; \<open>None\<close> when no branch is taken.\<close>

definition price_tier :: "real \<Rightarrow> tier option" where
  "price_tier price =
     (if 100 \<le> price \<and> price \<le> LOW_PRICE_THRESHOLD then Some Low
      else if LOW_PRICE_THRESHOLD < price \<and> price \<le> MID_PRICE_THRESHOLD then Some Mid
      else if price > MID_PRICE_THRESHOLD then Some High
      else None)"

text \<open>\<open>fetch_time[:4]\<close> for a truthy \<open>fetch_time\<close>: a string gives the string key
  \<open>Some year\<close>; a list gives a list, which cannot be a dict key (\<open>None\<close>); a number,
  \<open>true\<close> or an object cannot be sliced (for an object Python 3.12 raises \<open>KeyError\<close>
  where older versions raise \<open>TypeError\<close>; the model has \<open>TypeError\<close>).\<close>

fun year_of :: "json \<Rightarrow> py_error + string option" where
  "year_of (JStr s) = Inr (Some (take 4 s))"
| "year_of (JArr xs) = Inr None"
| "year_of v = Inl TypeError"

text \<open>Lines 62 to 80, the body of the loop for one record. A record that is not an
  object has no \<open>get\<close>; a price that is a string, a list or an object cannot be compared
  with 100; \<open>true\<close> and \<open>false\<close> compare as 1 and 0.\<close>

definition segment_record :: "segments \<Rightarrow> json \<Rightarrow> py_error + segments" where
  "segment_record segs record =
     (case record of
        JObj entries \<Rightarrow>
          (case map_of entries ''fetch_time'' of
             None \<Rightarrow> Inr segs
           | Some fetch_time \<Rightarrow>
               if \<not> truthy fetch_time then Inr segs
               else (case year_of fetch_time of
                  Inl e \<Rightarrow> Inl e
                | Inr year \<Rightarrow>
                    (case map_of entries ''price'' of
                       None \<Rightarrow> Inr segs
                     | Some JNull \<Rightarrow> Inr segs
                     | Some (JNum price) \<Rightarrow>
                         (case price_tier price of
                            None \<Rightarrow> Inr segs
                          | Some segment \<Rightarrow>
                              (case year of
                                 None \<Rightarrow> Inl TypeError
                               | Some y \<Rightarrow> Inr (append_price segs y segment price)))
                     | Some (JBool b) \<Rightarrow> Inr segs
                     | Some _ \<Rightarrow> Inl TypeError)))
      | _ \<Rightarrow> Inl AttributeError)"

text \<open>Lines 62 to 80: the loop over the records.\<close>

fun segment_loop :: "segments \<Rightarrow> json list \<Rightarrow> py_error + segments" where
  "segment_loop segs [] = Inr segs"
| "segment_loop segs (record # records) =
     (case segment_record segs record of
        Inl e \<Rightarrow> Inl e
      | Inr segs' \<Rightarrow> segment_loop segs' records)"

subsection \<open>\<open>analyze_data\<close>: statistics and inflation\<close>

text \<open>Lines 83 to 85.\<close>

definition summarize :: "pylib \<Rightarrow> segments \<Rightarrow> (string \<times> stats by_tier) list" where
  "summarize lib segs =
     map (\<lambda>(year, b). (year, \<lparr>low = calculate_statistics lib (low b),
                               mid = calculate_statistics lib (mid b),
                               high = calculate_statistics lib (high b)\<rparr>)) segs"

text \<open>
  Lines 96 to 106, for one pair of years and one segment: the value stored in
  \<open>inflation_summary[current_year][segment]\<close> and the sentences appended to
  \<open>inflation_analysis\<close> (one or none).\<close>

definition inflation_segment ::
  "pylib \<Rightarrow> string \<Rightarrow> string \<Rightarrow> tier \<Rightarrow> real option \<Rightarrow> real option
     \<Rightarrow> real option \<times> string list" where
  "inflation_segment lib previous_year current_year segment prev_avg curr_avg =
     (case prev_avg of
        None \<Rightarrow> (None, [])
      | Some prev \<Rightarrow>
          (case curr_avg of
             None \<Rightarrow> (None, [])
           | Some cur \<Rightarrow>
               if prev \<noteq> 0
               then (let inflation_rate = lib_mul lib (lib_div lib (lib_sub lib cur prev) prev) 100
                     in (Some (lib_round2 lib inflation_rate),
                         if inflation_rate > 0
                         then [''The inflation increased from year '' @ previous_year @ '' to ''
                                 @ current_year @ '' by '' @ lib_str lib (lib_round2 lib inflation_rate)
                                 @ ''% in the '' @ tier_name segment @ '' segment.'']
                         else if inflation_rate < 0
                         then [''The inflation decreased from year '' @ previous_year @ '' to ''
                                 @ current_year @ '' by ''
                                 @ lib_str lib (lib_round2 lib \<bar>inflation_rate\<bar>)
                                 @ ''% in the '' @ tier_name segment @ '' segment.'']
                         else []))
               else (None, [])))"

text \<open>Lines 92 to 106, one turn of the loop over the years: the three segments in the
  order low, mid, high.\<close>

definition inflation_year ::
  "pylib \<Rightarrow> string \<times> stats by_tier \<Rightarrow> string \<times> stats by_tier
     \<Rightarrow> (string \<times> real option by_tier) \<times> string list" where
  "inflation_year lib previous current =
     (let l = inflation_segment lib (fst previous) (fst current) Low
                (average (low (snd previous))) (average (low (snd current)));
          m = inflation_segment lib (fst previous) (fst current) Mid
                (average (mid (snd previous))) (average (mid (snd current)));
          h = inflation_segment lib (fst previous) (fst current) High
                (average (high (snd previous))) (average (high (snd current)))
      in ((fst current, \<lparr>low = fst l, mid = fst m, high = fst h\<rparr>), snd l @ snd m @ snd h))"

text \<open>Lines 90 to 106: the loop \<open>for i in range(1, len(sorted_years))\<close> over the summary
  in the order of \<open>sorted_years\<close>.\<close>

fun inflation_loop ::
  "pylib \<Rightarrow> (string \<times> stats by_tier) list
     \<Rightarrow> (string \<times> real option by_tier) list \<times> string list" where
  "inflation_loop lib (previous # current # rest) =
     (let r = inflation_year lib previous current; rs = inflation_loop lib (current # rest)
      in (fst r # fst rs, snd r @ snd rs))"
| "inflation_loop lib [previous] = ([], [])"
| "inflation_loop lib [] = ([], [])"

record analysis =
  inflation_analysis :: "string list"
  inflation_summary :: "(string \<times> real option by_tier) list"
  yearly_segment_summary :: "(string \<times> stats by_tier) list"

text \<open>
  \<open>analyze_data\<close> from line 59 on, given the array \<open>records\<close> read from the input
  file. The keys of a dict are distinct, so sorting the keys and looking each one up is
  sorting the items by their key; strings are ordered as Python orders them, by code
  point.\<close>

definition analyze_data :: "pylib \<Rightarrow> json list \<Rightarrow> py_error + analysis" where
  "analyze_data lib records =
     (case segment_loop [] records of
        Inl e \<Rightarrow> Inl e
      | Inr yearly_price_segments \<Rightarrow>
          (let sorted_summary = sort_key fst (summarize lib yearly_price_segments);
               r = inflation_loop lib sorted_summary
           in Inr \<lparr>inflation_analysis = snd r,
                   inflation_summary = fst r,
                   yearly_segment_summary = sorted_summary\<rparr>))"

subsection \<open>Notions used to state the properties\<close>

text \<open>The year and the price of a record that has a capture time (a string that is
  not empty) and a numeric price; \<open>None\<close> for any other value.\<close>

definition priced :: "json \<Rightarrow> (string \<times> real) option" where
  "priced record =
     (case record of
        JObj entries \<Rightarrow>
          (case (map_of entries ''fetch_time'', map_of entries ''price'') of
             (Some (JStr ft), Some (JNum p)) \<Rightarrow> if ft \<noteq> [] then Some (take 4 ft, p) else None
           | _ \<Rightarrow> None)
      | _ \<Rightarrow> None)"

text \<open>The prices, in order, of the records of year \<open>y\<close> whose price satisfies \<open>P\<close>.\<close>

definition prices_where :: "(real \<Rightarrow> bool) \<Rightarrow> string \<Rightarrow> json list \<Rightarrow> real list" where
  "prices_where P y records =
     map snd (filter (\<lambda>yp. fst yp = y \<and> P (snd yp)) (List.map_filter priced records))"



text \<open>What \<open>clean_data\<close> keeps of one line: the normalized record that the filter
  retains, if any.\<close>

definition retained ::
  "(string \<Rightarrow> real option) \<Rightarrow> (json \<Rightarrow> py_error + string) \<Rightarrow> json option \<Rightarrow> item option" where
  "retained to_float isofmt line =
     (case line of
        None \<Rightarrow> None
      | Some v \<Rightarrow> (case clean_item to_float isofmt v of Inr r \<Rightarrow> r | Inl e \<Rightarrow> None))"

section \<open>Properties of the cleaning stage\<close>

subsection \<open>What the two normalizers leave alone\<close>

lemma map_of_normalize_price_other:
  "k \<noteq> ''price'' \<Longrightarrow> map_of (normalize_price to_float item) k = map_of item k"
  by (simp add: normalize_price_def Let_def update_conv' split: option.splits json.splits)

lemma map_of_normalize_fetch_time_other:
  "normalize_fetch_time isofmt item = Inr it \<Longrightarrow> k \<noteq> ''fetch_time''
   \<Longrightarrow> map_of it k = map_of item k"
  by (auto simp: normalize_fetch_time_def update_conv'
      split: option.splits if_splits sum.splits py_error.splits)

lemma map_of_normalized_title:
  "normalize_fetch_time isofmt (normalize_price to_float item) = Inr it
   \<Longrightarrow> map_of it ''title'' = map_of item ''title''"
  by (simp add: map_of_normalize_price_other map_of_normalize_fetch_time_other)

lemma map_of_normalized_price:
  "normalize_fetch_time isofmt (normalize_price to_float item) = Inr it
   \<Longrightarrow> map_of it ''price'' = map_of (normalize_price to_float item) ''price''"
  by (simp add: map_of_normalize_fetch_time_other)

subsection \<open>The loop over the lines\<close>

lemma clean_lines_retained:
  "clean_lines to_float isofmt ls acc = Inr out
   \<Longrightarrow> out = acc @ List.map_filter (retained to_float isofmt) ls"
  by (induction to_float isofmt ls acc rule: clean_lines.induct)
     (auto simp: retained_def map_filter_simps split: sum.splits option.splits)

lemma clean_lines_abort:
  "Some v \<in> set ls \<Longrightarrow> clean_item to_float isofmt v = Inl e
   \<Longrightarrow> \<exists>e'. clean_lines to_float isofmt ls acc = Inl e'"
  by (induction to_float isofmt ls acc rule: clean_lines.induct)
     (auto split: sum.splits option.splits)

lemma clean_lines_first_abort:
  "list_all (\<lambda>l. case l of None \<Rightarrow> True | Some w \<Rightarrow> \<not> isl (clean_item to_float isofmt w)) pre
   \<Longrightarrow> clean_item to_float isofmt v = Inl e
   \<Longrightarrow> clean_lines to_float isofmt (pre @ Some v # post) acc = Inl e"
  by (induction to_float isofmt pre acc rule: clean_lines.induct)
     (auto split: sum.splits option.splits)

subsection \<open>The filter\<close>

lemma keep_item_string:
  assumes "map_of it ''title'' = Some (JStr t)"
  shows "keep_item it =
           Inr (t \<notin> {''301 Moved Permanently'', ''Robot Check'',
                      ''Sorry! Something went wrong!'', ''No Title Found''}
                \<and> py_lower t \<notin> set promo_titles
                \<and> (map_of it ''price'' = None
                    \<or> (\<exists>p. map_of it ''price'' = Some (JNum p) \<and> 99 \<le> p
                            \<and> p \<notin> {2020, 2021, 2022, 2023, 2024, 1996})))"
proof -
  have price: "price_ok it \<longleftrightarrow>
      (map_of it ''price'' = None
        \<or> (\<exists>p. map_of it ''price'' = Some (JNum p) \<and> 99 \<le> p
                \<and> p \<notin> {2020, 2021, 2022, 2023, 2024, 1996}))"
    by (simp add: price_ok_def year_like_prices_def split: option.splits json.splits)
  have err: "set error_titles = {''301 Moved Permanently'', ''Robot Check'',
      ''Sorry! Something went wrong!'', ''No Title Found''}"
    by (simp add: error_titles_def)
  show ?thesis
    using assms by (simp only: keep_item_def price err option.case json.case)
qed

lemma clean_item_string_title:
  assumes "map_of item ''title'' = Some (JStr t)"
    and "normalize_fetch_time isofmt (normalize_price to_float item) = Inr it"
  shows "clean_item to_float isofmt (JObj item) =
           Inr (if t \<notin> {''301 Moved Permanently'', ''Robot Check'',
                          ''Sorry! Something went wrong!'', ''No Title Found''}
                    \<and> py_lower t \<notin> set promo_titles
                    \<and> (map_of it ''price'' = None
                        \<or> (\<exists>p. map_of it ''price'' = Some (JNum p) \<and> 99 \<le> p
                                \<and> p \<notin> {2020, 2021, 2022, 2023, 2024, 1996}))
                then Some it else None)"
proof -
  have "map_of it ''title'' = Some (JStr t)"
    using map_of_normalized_title [OF assms(2)] assms(1) by simp
  then show ?thesis
    by (simp add: clean_item_def assms(2) keep_item_string)
qed

text \<open>
  Claim C2. For a parsed record whose \<open>title\<close> is a string \<open>t\<close>, \<open>clean_data\<close> keeps
  the normalized record exactly when \<open>t\<close> is none of the four error titles, the
  lowercased \<open>t\<close> is none of the promotional titles (among them \<open>black friday\<close> and
  \<open>prime\<close>), and the price of the normalized record is absent, or is a number that is
  at least 99 and none of 2020, 2021, 2022, 2023, 2024, 1996; otherwise the record is
  dropped. (The filter is not reached when the date parser raises an exception that is
  not caught.) So a title that lowercases to \<open>black friday\<close> is rejected whatever the
  price, and the price 2021 is rejected. The array written by \<open>clean_data\<close> consists of
  the records so retained, in the order of the lines.
\<close>

theorem filter_retains_iff:
  assumes "map_of item ''title'' = Some (JStr t)"
  shows "(case normalize_fetch_time isofmt (normalize_price to_float item) of
            Inl e \<Rightarrow> clean_item to_float isofmt (JObj item) = Inl e
          | Inr it \<Rightarrow>
              clean_item to_float isofmt (JObj item) =
                Inr (if t \<notin> {''301 Moved Permanently'', ''Robot Check'',
                               ''Sorry! Something went wrong!'', ''No Title Found''}
                         \<and> py_lower t \<notin> set promo_titles
                         \<and> (map_of it ''price'' = None
                             \<or> (\<exists>p. map_of it ''price'' = Some (JNum p) \<and> 99 \<le> p
                                     \<and> p \<notin> {2020, 2021, 2022, 2023, 2024, 1996}))
                     then Some it else None)
              \<and> (py_lower t = ''black friday'' \<longrightarrow>
                    clean_item to_float isofmt (JObj item) = Inr None)
              \<and> (map_of it ''price'' = Some (JNum 2021) \<longrightarrow>
                    clean_item to_float isofmt (JObj item) = Inr None))
         \<and> ''black friday'' \<in> set promo_titles \<and> ''prime'' \<in> set promo_titles
         \<and> (clean_data to_float isofmt files = Inr out \<longrightarrow>
               out = List.map_filter (retained to_float isofmt) (concat files))"
proof -
  have promo: "''black friday'' \<in> set promo_titles" "''prime'' \<in> set promo_titles"
    by (simp_all add: promo_titles_def)
  have data: "out = List.map_filter (retained to_float isofmt) (concat files)"
    if "clean_data to_float isofmt files = Inr out"
    using that clean_lines_retained [of to_float isofmt "concat files" "[]" out]
    by (simp add: clean_data_def)
  show ?thesis
  proof (cases "normalize_fetch_time isofmt (normalize_price to_float item)")
    case (Inl e)
    then show ?thesis
      using promo data by (simp add: clean_item_def)
  next
    case (Inr it)
    show ?thesis
      using promo data by (auto simp: Inr clean_item_string_title [OF assms Inr])
  qed
qed

theorem filter_retains_iff_witness:
  "clean_item decimal_value (\<lambda>v. Inl ValueError)
      (JObj [(''title'', JStr ''Widget''), (''price'', JStr ''$150'')])
     = Inr (Some [(''title'', JStr ''Widget''), (''price'', JNum 150)])
   \<and> clean_item decimal_value (\<lambda>v. Inl ValueError)
      (JObj [(''title'', JStr ''Black Friday''), (''price'', JStr ''$150'')])
     = Inr None
   \<and> clean_item decimal_value (\<lambda>v. Inl ValueError)
      (JObj [(''title'', JStr ''Widget''), (''price'', JNum 2021)])
     = Inr None
   \<and> clean_data decimal_value (\<lambda>v. Inl ValueError)
      [[Some (JObj [(''title'', JStr ''Black Friday''), (''price'', JStr ''$150'')]), None],
       [Some (JObj [(''title'', JStr ''Widget''), (''price'', JStr ''$150'')])]]
     = Inr [[(''title'', JStr ''Widget''), (''price'', JNum 150)]]
   \<and> List.map_filter (retained decimal_value (\<lambda>v. Inl ValueError))
       [Some (JObj [(''title'', JStr ''Black Friday''), (''price'', JStr ''$150'')]), None,
        Some (JObj [(''title'', JStr ''Widget''), (''price'', JStr ''$150'')])]
     = [[(''title'', JStr ''Widget''), (''price'', JNum 150)]]"
proof -
  let ?tf = "decimal_value" and ?iso = "\<lambda>v::json. (Inl ValueError :: py_error + string)"
  let ?a = "[(''title'', JStr ''Widget''), (''price'', JStr ''$150'')]"
  let ?b = "[(''title'', JStr ''Black Friday''), (''price'', JStr ''$150'')]"
  let ?c = "[(''title'', JStr ''Widget''), (''price'', JNum 2021)]"
  let ?files = "[[Some (JObj ?b), None], [Some (JObj ?a)]]"
  let ?out = "[[(''title'', JStr ''Widget''), (''price'', JNum 150)]]"
  have l: "py_lower ''Widget'' = ''widget''" "py_lower ''Black Friday'' = ''black friday''"
    by code_simp+
  have s: "py_strip (py_remove (CHR '','') (py_remove (CHR ''$'') ''$150'')) = ''150''"
    by code_simp
  have f: "decimal_value ''150'' = Some 150" "py_isdigit ''150''"
    by code_simp+
  have na: "normalize_fetch_time ?iso (normalize_price ?tf ?a)
      = Inr [(''title'', JStr ''Widget''), (''price'', JNum 150)]"
    by (simp add: normalize_price_def normalize_fetch_time_def s f)
  have nb: "normalize_fetch_time ?iso (normalize_price ?tf ?b)
      = Inr [(''title'', JStr ''Black Friday''), (''price'', JNum 150)]"
    by (simp add: normalize_price_def normalize_fetch_time_def s f)
  have nc: "normalize_fetch_time ?iso (normalize_price ?tf ?c) = Inr ?c"
    by (simp add: normalize_price_def normalize_fetch_time_def)
  have ta: "map_of ?a ''title'' = Some (JStr ''Widget'')"
    and tb: "map_of ?b ''title'' = Some (JStr ''Black Friday'')"
    and tc: "map_of ?c ''title'' = Some (JStr ''Widget'')"
    by simp_all
  have a: "clean_item ?tf ?iso (JObj ?a) = Inr (Some [(''title'', JStr ''Widget''), (''price'', JNum 150)])"
    using filter_retains_iff [OF ta, where isofmt = ?iso and to_float = ?tf and files = ?files
        and out = ?out, THEN conjunct1]
    by (simp add: na l promo_titles_def)
  have b: "clean_item ?tf ?iso (JObj ?b) = Inr None"
    using filter_retains_iff [OF tb, where isofmt = ?iso and to_float = ?tf and files = ?files
        and out = ?out, THEN conjunct1]
    by (simp add: nb l promo_titles_def)
  have c: "clean_item ?tf ?iso (JObj ?c) = Inr None"
    using filter_retains_iff [OF tc, where isofmt = ?iso and to_float = ?tf and files = ?files
        and out = ?out, THEN conjunct1]
    by (simp add: nc)
  have data: "clean_data ?tf ?iso ?files = Inr ?out"
    by (simp add: clean_data_def a b)
  have kept: "List.map_filter (retained ?tf ?iso) [Some (JObj ?b), None, Some (JObj ?a)] = ?out"
    using filter_retains_iff [OF ta, where isofmt = ?iso and to_float = ?tf and files = ?files
        and out = ?out, THEN conjunct2, THEN conjunct2, THEN conjunct2, rule_format, OF data]
    by simp
  from a b c data kept show ?thesis
    by simp
qed

subsection \<open>The price normalizer\<close>

lemma map_of_normalize_price_string:
  assumes "map_of item ''price'' = Some (JStr s)"
  shows "map_of (normalize_price to_float item) ''price'' =
           Some (let s' = py_strip (py_remove (CHR '','') (py_remove (CHR ''$'') s)) in
                 if py_isdigit s' \<or> CHR ''.'' \<in> set s'
                 then (case to_float s' of Some v \<Rightarrow> JNum v | None \<Rightarrow> JNull)
                 else JStr s')"
  using assms by (simp add: normalize_price_def Let_def update_conv' split: option.splits)

lemma strip_priced:
  "py_strip (py_remove (CHR '','') (py_remove (CHR ''$'') ''$1,299.00'')) = ''1299.00''"
  by code_simp

text \<open>
  Claim C5, amended. For a record whose price is a string, the normalizer removes every
  \<open>$\<close> and every comma and trims the result. Only when what is left is all digits or
  holds a \<open>.\<close> is it passed to \<open>float\<close>, the price becoming the float returned, or
  null when \<open>float\<close> raises \<open>ValueError\<close>; otherwise the price stays the trimmed
  string. This is the price of the record that \<open>clean_data\<close> filters and keeps. The raw
  price \<open>$1,299.00\<close> becomes \<open>float('1299.00')\<close>, the number 1299.
\<close>

theorem normalize_price_string:
  assumes "map_of item ''price'' = Some (JStr s)"
  shows "map_of (normalize_price to_float item) ''price'' =
           Some (let s' = py_strip (py_remove (CHR '','') (py_remove (CHR ''$'') s)) in
                 if py_isdigit s' \<or> CHR ''.'' \<in> set s'
                 then (case to_float s' of Some v \<Rightarrow> JNum v | None \<Rightarrow> JNull)
                 else JStr s')
         \<and> (\<forall>it. clean_item to_float isofmt (JObj item) = Inr (Some it) \<longrightarrow>
                map_of it ''price'' = map_of (normalize_price to_float item) ''price'')
         \<and> (s = ''$1,299.00'' \<and> to_float ''1299.00'' = Some 1299 \<longrightarrow>
                map_of (normalize_price to_float item) ''price'' = Some (JNum 1299))"
proof -
  have kept: "map_of it ''price'' = map_of (normalize_price to_float item) ''price''"
    if "clean_item to_float isofmt (JObj item) = Inr (Some it)" for it
    using that
    by (auto simp: clean_item_def map_of_normalized_price split: sum.splits if_splits)
  show ?thesis
    using map_of_normalize_price_string [OF assms, of to_float] kept
    by (simp add: strip_priced)
qed

theorem normalize_price_string_witness:
  "decimal_value ''1299.00'' = Some 1299
   \<and> map_of (normalize_price decimal_value
        [(''title'', JStr ''Widget''), (''price'', JStr ''$1,299.00'')]) ''price''
     = Some (JNum 1299)
   \<and> clean_item decimal_value (\<lambda>v. Inl ValueError)
        (JObj [(''title'', JStr ''Widget''), (''price'', JStr ''$1,299.00'')])
     = Inr (Some [(''title'', JStr ''Widget''), (''price'', JNum 1299)])
   \<and> map_of [(''title'', JStr ''Widget''), (''price'', JNum 1299)] ''price''
     = map_of (normalize_price decimal_value
         [(''title'', JStr ''Widget''), (''price'', JStr ''$1,299.00'')]) ''price''"
proof -
  let ?item = "[(''title'', JStr ''Widget''), (''price'', JStr ''$1,299.00'')]"
  have price: "map_of ?item ''price'' = Some (JStr ''$1,299.00'')"
    by simp
  have f: "decimal_value ''1299.00'' = Some 1299"
    by code_simp
  have l: "py_lower ''Widget'' = ''widget''"
    by code_simp
  have n: "map_of (normalize_price decimal_value ?item) ''price'' = Some (JNum 1299)"
    using normalize_price_string [OF price, of decimal_value, THEN conjunct2, THEN conjunct2] f
    by simp
  have np: "normalize_price decimal_value ?item
      = [(''title'', JStr ''Widget''), (''price'', JNum 1299)]"
    by (simp add: normalize_price_def strip_priced f Let_def)
  have c: "clean_item decimal_value (\<lambda>v. Inl ValueError) (JObj ?item)
      = Inr (Some [(''title'', JStr ''Widget''), (''price'', JNum 1299)])"
    by (simp add: clean_item_def np normalize_fetch_time_def keep_item_def
        price_ok_def error_titles_def promo_titles_def year_like_prices_def l)
  have k: "map_of [(''title'', JStr ''Widget''), (''price'', JNum 1299)] ''price''
      = map_of (normalize_price decimal_value ?item) ''price''"
    using normalize_price_string [OF price, where to_float = decimal_value
        and isofmt = "\<lambda>v. Inl ValueError", THEN conjunct2, THEN conjunct1, rule_format, OF c] .
  from f n c k show ?thesis
    by simp
qed

lemma strip_na: "py_strip (py_remove (CHR '','') (py_remove (CHR ''$'') ''$N/A'')) = ''N/A''"
  by code_simp

lemma float_na: "decimal_value ''N/A'' = None"
  by code_simp

lemma isdigit_na: "\<not> py_isdigit ''N/A''"
  by code_simp

text \<open>
  Claim C5 as stated fails: the price \<open>$N/A\<close> is no float literal, and the normalizer
  leaves the string \<open>N/A\<close> as the price, not null, whatever \<open>float\<close> does: it is
  not called.
\<close>

theorem unparsed_price_stays_text:
  "(\<forall>to_float. map_of (normalize_price to_float
         [(''title'', JStr ''Widget''), (''price'', JStr ''$N/A'')]) ''price''
       = Some (JStr ''N/A''))
   \<and> decimal_value ''N/A'' = None"
  using map_of_normalize_price_string
    [of "[(''title'', JStr ''Widget''), (''price'', JStr ''$N/A'')]" "''$N/A''"]
  by (simp add: strip_na float_na isdigit_na)

subsection \<open>Errors that leave \<open>clean_data\<close>\<close>

lemma clean_item_missing_title:
  "map_of item ''title'' = None \<Longrightarrow>
   clean_item to_float isofmt (JObj item) =
     (case normalize_fetch_time isofmt (normalize_price to_float item) of
        Inl e \<Rightarrow> Inl e
      | Inr it \<Rightarrow> Inl KeyError)"
  by (simp add: clean_item_def keep_item_def map_of_normalized_title split: sum.splits)

text \<open>
  Claim C8, amended. A line that does not parse is skipped (second equation of
  \<open>clean_lines\<close>); no other exception is caught for a line. A line that parses to an
  object without a \<open>title\<close> key always raises: the title lookup raises \<open>KeyError\<close>,
  unless the date parser has already raised an exception that is not caught on the same
  line. Any input that holds such a line makes \<open>clean_data\<close> end with an exception, so
  no output is written and the records kept so far are lost; the exception is the
  \<open>KeyError\<close> of the title lookup when no earlier line raises and the date parser raises
  nothing uncaught on that line.
\<close>

theorem missing_title_aborts:
  assumes "map_of item ''title'' = None" and "Some (JObj item) \<in> set (concat files)"
  shows "clean_item to_float isofmt (JObj item) =
           (case normalize_fetch_time isofmt (normalize_price to_float item) of
              Inl e \<Rightarrow> Inl e
            | Inr it \<Rightarrow> Inl KeyError)
         \<and> (\<exists>e. clean_data to_float isofmt files = Inl e)
         \<and> (\<forall>pre post. concat files = pre @ Some (JObj item) # post
               \<and> list_all (\<lambda>l. case l of None \<Rightarrow> True
                                | Some w \<Rightarrow> \<not> isl (clean_item to_float isofmt w)) pre
               \<and> \<not> isl (normalize_fetch_time isofmt (normalize_price to_float item))
              \<longrightarrow> clean_data to_float isofmt files = Inl KeyError)"
proof -
  have item: "clean_item to_float isofmt (JObj item) =
           (case normalize_fetch_time isofmt (normalize_price to_float item) of
              Inl e \<Rightarrow> Inl e
            | Inr it \<Rightarrow> Inl KeyError)"
    using assms(1) by (rule clean_item_missing_title)
  then obtain e where e: "clean_item to_float isofmt (JObj item) = Inl e"
    by (auto split: sum.splits)
  have key: "clean_item to_float isofmt (JObj item) = Inl KeyError"
    if "\<not> isl (normalize_fetch_time isofmt (normalize_price to_float item))"
    using that item by (auto split: sum.splits)
  show ?thesis
    using item clean_lines_abort [OF assms(2) e] clean_lines_first_abort key
    by (auto simp: clean_data_def)
qed

theorem missing_title_aborts_witness:
  "clean_data decimal_value (\<lambda>v. Inl ValueError)
     [[Some (JObj [(''title'', JStr ''Widget''), (''price'', JNum 150)]), None],
      [Some (JObj [(''price'', JNum 150)]), Some (JObj [(''title'', JStr ''Gadget'')])]]
   = Inl KeyError"
proof -
  have t: "map_of [(''price'', JNum 150)] ''title'' = None"
    by simp
  have m: "Some (JObj [(''price'', JNum 150)]) \<in> set (concat
     [[Some (JObj [(''title'', JStr ''Widget''), (''price'', JNum 150)]), None],
      [Some (JObj [(''price'', JNum 150)]), Some (JObj [(''title'', JStr ''Gadget'')])]])"
    by simp
  have l: "py_lower ''Widget'' = ''widget''"
    by code_simp
  have first: "clean_item decimal_value (\<lambda>v. Inl ValueError)
        (JObj [(''title'', JStr ''Widget''), (''price'', JNum 150)])
      = Inr (Some [(''title'', JStr ''Widget''), (''price'', JNum 150)])"
    by (simp add: clean_item_def normalize_price_def normalize_fetch_time_def keep_item_def
        price_ok_def error_titles_def promo_titles_def year_like_prices_def l)
  have nf: "\<not> isl (normalize_fetch_time (\<lambda>v. Inl ValueError)
      (normalize_price decimal_value [(''price'', JNum 150)]))"
    by (simp add: normalize_price_def normalize_fetch_time_def)
  from missing_title_aborts [OF t m, where isofmt = "\<lambda>v. Inl ValueError"
      and to_float = decimal_value, THEN conjunct2, THEN conjunct2]
  show ?thesis
    by (simp add: first nf append_eq_Cons_conv Cons_eq_append_conv)
qed

text \<open>
  Claim C8 as stated fails: the exception that ends \<open>clean_data\<close> need not be the
  \<open>KeyError\<close> of the title lookup. With the line \<open>5\<close> before the line
  \<open>{"price": 150}\<close> it is the \<open>TypeError\<close> of the first line; and for the single line
  \<open>{"fetch_time": "99999999999999999999999"}\<close>, on which the date parser raises
  \<open>OverflowError\<close>, it is that \<open>OverflowError\<close>.
\<close>

theorem other_exception_ends_first:
  "(\<forall>to_float isofmt.
      clean_data to_float isofmt [[Some (JNum 5), Some (JObj [(''price'', JNum 150)])]]
        = Inl TypeError)
   \<and> (\<forall>to_float.
      clean_data to_float (\<lambda>v. Inl OverflowError)
        [[Some (JObj [(''fetch_time'', JStr ''99999999999999999999999'')])]] = Inl OverflowError)"
  by (simp add: clean_data_def clean_item_def normalize_price_def normalize_fetch_time_def)

subsection \<open>The sentinel price\<close>

lemma strip_sentinel:
  "py_strip (py_remove (CHR '','') (py_remove (CHR ''$'') ''No Price Found'')) = ''No Price Found''"
  by code_simp

lemma isdigit_sentinel: "\<not> py_isdigit ''No Price Found''"
  by code_simp

lemma normalize_price_sentinel:
  "map_of item ''price'' = Some (JStr ''No Price Found'')
   \<Longrightarrow> map_of (normalize_price to_float item) ''price'' = Some (JStr ''No Price Found'')"
  using map_of_normalize_price_string [of item "''No Price Found''" to_float]
  by (simp add: strip_sentinel isdigit_sentinel)

lemma price_ok_cases:
  "price_ok it \<Longrightarrow> map_of it ''price'' = None \<or> (\<exists>p. map_of it ''price'' = Some (JNum p))"
  by (auto simp: price_ok_def split: option.splits json.splits)

lemma clean_item_kept_price_ok:
  "clean_item to_float isofmt v = Inr (Some it) \<Longrightarrow> price_ok it"
  by (auto simp: clean_item_def keep_item_def
      split: json.splits sum.splits option.splits if_splits)

lemma clean_lines_price_ok:
  "clean_lines to_float isofmt ls acc = Inr out \<Longrightarrow> list_all price_ok acc
   \<Longrightarrow> list_all price_ok out"
  by (induction to_float isofmt ls acc rule: clean_lines.induct)
     (auto split: sum.splits option.splits dest: clean_item_kept_price_ok)

text \<open>
  Claim C10. For a record whose price is the sentinel \<open>No Price Found\<close>, the guard of
  the price normalizer fails and the price stays that string; the price condition of
  the filter is false on the normalized record, so the record is never kept (it is
  dropped, or an exception leaves the line). Hence no record of the array that
  \<open>clean_data\<close> writes has the sentinel as its price.
\<close>

theorem sentinel_price_never_kept:
  "(map_of item ''price'' = Some (JStr ''No Price Found'') \<longrightarrow>
       map_of (normalize_price to_float item) ''price'' = Some (JStr ''No Price Found'')
     \<and> (\<forall>it. normalize_fetch_time isofmt (normalize_price to_float item) = Inr it
              \<longrightarrow> \<not> price_ok it)
     \<and> (\<forall>it. clean_item to_float isofmt (JObj item) \<noteq> Inr (Some it)))
   \<and> (clean_data to_float isofmt files = Inr out \<longrightarrow>
        (\<forall>it \<in> set out. map_of it ''price'' \<noteq> Some (JStr ''No Price Found'')))"
proof -
  have a: "map_of (normalize_price to_float item) ''price'' = Some (JStr ''No Price Found'')"
    if "map_of item ''price'' = Some (JStr ''No Price Found'')"
    using that by (rule normalize_price_sentinel)
  have b: "\<not> price_ok it"
    if "map_of item ''price'' = Some (JStr ''No Price Found'')"
      and "normalize_fetch_time isofmt (normalize_price to_float item) = Inr it" for it
    using a [OF that(1)] by (simp add: price_ok_def map_of_normalized_price [OF that(2)])
  have c: "clean_item to_float isofmt (JObj item) \<noteq> Inr (Some it)"
    if "map_of item ''price'' = Some (JStr ''No Price Found'')" for it
    using b [OF that]
    by (auto simp: clean_item_def keep_item_def split: sum.splits option.splits json.splits)
  have d: "map_of it ''price'' \<noteq> Some (JStr ''No Price Found'')"
    if "clean_data to_float isofmt files = Inr out" "it \<in> set out" for it
  proof -
    have "list_all price_ok out"
      using that(1) clean_lines_price_ok [of to_float isofmt "concat files" "[]" out]
      by (simp add: clean_data_def)
    then have "price_ok it"
      using that(2) by (simp add: list_all_iff)
    then show ?thesis
      using price_ok_cases by fastforce
  qed
  show ?thesis
    using a b c d by blast
qed

theorem sentinel_price_never_kept_witness:
  "map_of [(''title'', JStr ''Widget''), (''price'', JStr ''No Price Found'')] ''price''
     = Some (JStr ''No Price Found'')
   \<and> clean_item decimal_value (\<lambda>v. Inl ValueError)
       (JObj [(''title'', JStr ''Widget''), (''price'', JStr ''No Price Found'')])
     = Inr None
   \<and> clean_data decimal_value (\<lambda>v. Inl ValueError)
       [[Some (JObj [(''title'', JStr ''Widget''), (''price'', JStr ''No Price Found'')]),
         Some (JObj [(''title'', JStr ''Widget''), (''price'', JStr ''$150'')])]]
     = Inr [[(''title'', JStr ''Widget''), (''price'', JNum 150)]]
   \<and> map_of [(''title'', JStr ''Widget''), (''price'', JNum 150)] ''price''
     \<noteq> Some (JStr ''No Price Found'')"
proof -
  let ?item = "[(''title'', JStr ''Widget''), (''price'', JStr ''No Price Found'')]"
  let ?good = "[(''title'', JStr ''Widget''), (''price'', JStr ''$150'')]"
  let ?files = "[[Some (JObj ?item), Some (JObj ?good)]]"
  let ?out = "[[(''title'', JStr ''Widget''), (''price'', JNum 150)]]"
  have p: "map_of ?item ''price'' = Some (JStr ''No Price Found'')"
    by simp
  have l: "py_lower ''Widget'' = ''widget''"
    by code_simp
  have s: "py_strip (py_remove (CHR '','') (py_remove (CHR ''$'') ''$150'')) = ''150''"
    by code_simp
  have f: "decimal_value ''150'' = Some 150" "py_isdigit ''150''"
    by code_simp+
  have np: "normalize_price decimal_value ?item = ?item"
    by (simp add: normalize_price_def strip_sentinel isdigit_sentinel)
  have one: "clean_item decimal_value (\<lambda>v. Inl ValueError) (JObj ?item) = Inr None"
    by (simp add: clean_item_def keep_item_def np normalize_fetch_time_def price_ok_def
        error_titles_def promo_titles_def l)
  have two: "clean_item decimal_value (\<lambda>v. Inl ValueError) (JObj ?good)
      = Inr (Some [(''title'', JStr ''Widget''), (''price'', JNum 150)])"
    by (simp add: clean_item_def normalize_price_def normalize_fetch_time_def keep_item_def
        price_ok_def error_titles_def promo_titles_def year_like_prices_def l s f)
  have data: "clean_data decimal_value (\<lambda>v. Inl ValueError) ?files = Inr ?out"
    by (simp add: one two clean_data_def)
  show ?thesis
    using sentinel_price_never_kept [of ?item decimal_value "\<lambda>v. Inl ValueError" ?files ?out]
      p one data
    by simp
qed

section \<open>Properties of the extraction stage\<close>

lemma extract_title_first_present:
  "extract_title doc = (case first_present (title_candidates doc) of Some t \<Rightarrow> t | None \<Rightarrow> [])"
  by (simp add: extract_title_def title_candidates_def split: option.splits)

lemma extract_price_first_present:
  "extract_price doc = (case first_present (price_candidates doc) of Some t \<Rightarrow> t | None \<Rightarrow> [])"
  by (simp add: extract_price_def price_candidates_def split: option.splits)

lemma first_present_nonempty_agree:
  "first_present cs = Some t \<Longrightarrow> t \<noteq> [] \<Longrightarrow> spec_first_nonempty cs = Some t"
  by (induction cs rule: first_present.induct) auto

lemma spec_first_nonempty_None:
  "spec_first_nonempty cs = None \<Longrightarrow> first_present cs = None \<or> first_present cs = Some []"
  by (induction cs rule: first_present.induct) (auto split: if_splits)

text \<open>
  Claim C4, amended. Each chain takes the first strategy, in chain order, whose element
  or match is present, and the field is that strategy's text (trimmed, but for the
  price regex), or the sentinel when that text is empty or no strategy is present.
  When the text of the first present strategy is not empty it is the first non-empty
  match of the chain; when no strategy yields a non-empty match the field is the
  sentinel.
\<close>

theorem chain_takes_first_present:
  "map_of (extract_product_data doc) ''title'' =
     Some (JStr (case first_present (title_candidates doc) of
                   Some t \<Rightarrow> if t \<noteq> [] then t else ''No Title Found''
                 | None \<Rightarrow> ''No Title Found''))
   \<and> map_of (extract_product_data doc) ''price'' =
     Some (JStr (case first_present (price_candidates doc) of
                   Some t \<Rightarrow> if t \<noteq> [] then t else ''No Price Found''
                 | None \<Rightarrow> ''No Price Found''))
   \<and> (\<forall>t. first_present (title_candidates doc) = Some t \<and> t \<noteq> [] \<longrightarrow>
          spec_first_nonempty (title_candidates doc) = Some t
          \<and> map_of (extract_product_data doc) ''title'' = Some (JStr t))
   \<and> (\<forall>t. first_present (price_candidates doc) = Some t \<and> t \<noteq> [] \<longrightarrow>
          spec_first_nonempty (price_candidates doc) = Some t
          \<and> map_of (extract_product_data doc) ''price'' = Some (JStr t))
   \<and> (spec_first_nonempty (title_candidates doc) = None \<longrightarrow>
          map_of (extract_product_data doc) ''title'' = Some (JStr ''No Title Found''))
   \<and> (spec_first_nonempty (price_candidates doc) = None \<longrightarrow>
          map_of (extract_product_data doc) ''price'' = Some (JStr ''No Price Found''))"
proof -
  have t: "map_of (extract_product_data doc) ''title'' =
      Some (JStr (case first_present (title_candidates doc) of
                   Some t \<Rightarrow> if t \<noteq> [] then t else ''No Title Found''
                 | None \<Rightarrow> ''No Title Found''))"
    by (simp add: extract_product_data_def Let_def extract_title_first_present split: option.splits)
  have p: "map_of (extract_product_data doc) ''price'' =
      Some (JStr (case first_present (price_candidates doc) of
                   Some t \<Rightarrow> if t \<noteq> [] then t else ''No Price Found''
                 | None \<Rightarrow> ''No Price Found''))"
    by (simp add: extract_product_data_def Let_def extract_price_first_present split: option.splits)
  have tn: "map_of (extract_product_data doc) ''title'' = Some (JStr ''No Title Found'')"
    if "spec_first_nonempty (title_candidates doc) = None"
    using spec_first_nonempty_None [OF that] by (auto simp: t)
  have pn: "map_of (extract_product_data doc) ''price'' = Some (JStr ''No Price Found'')"
    if "spec_first_nonempty (price_candidates doc) = None"
    using spec_first_nonempty_None [OF that] by (auto simp: p)
  show ?thesis
    using tn pn by (auto simp: t p first_present_nonempty_agree)
qed

theorem chain_takes_first_present_witness:
  "first_present (title_candidates [Elem ''h1'' [] [Text NavStr '' Widget ''], Elem ''script'' [] [Text ScriptStr ''var n = 42;''],
        Text NavStr ''now 12.50 only'']) = Some ''Widget''
   \<and> first_present (price_candidates [Elem ''h1'' [] [Text NavStr '' Widget ''], Elem ''script'' [] [Text ScriptStr ''var n = 42;''],
        Text NavStr ''now 12.50 only'']) = Some ''12.50''
   \<and> extract_product_data [Elem ''h1'' [] [Text NavStr '' Widget ''], Elem ''script'' [] [Text ScriptStr ''var n = 42;''],
        Text NavStr ''now 12.50 only'']
       = [(''title'', JStr ''Widget''), (''price'', JStr ''12.50'')]
   \<and> spec_first_nonempty (title_candidates [Elem ''p'' [] [Text NavStr ''nothing'']]) = None
   \<and> spec_first_nonempty (price_candidates [Elem ''p'' [] [Text NavStr ''nothing'']]) = None
   \<and> extract_product_data [Elem ''p'' [] [Text NavStr ''nothing'']]
       = [(''title'', JStr ''No Title Found''), (''price'', JStr ''No Price Found'')]"
proof -
  let ?d = "[Elem ''h1'' [] [Text NavStr '' Widget ''], Elem ''script'' [] [Text ScriptStr ''var n = 42;''],
        Text NavStr ''now 12.50 only'']"
  let ?e = "[Elem ''p'' [] [Text NavStr ''nothing'']]"
  have a: "first_present (title_candidates ?d) = Some ''Widget''"
    by code_simp
  have b: "first_present (price_candidates ?d) = Some ''12.50''"
    by code_simp
  have c: "spec_first_nonempty (title_candidates ?e) = None"
    by code_simp
  have d: "spec_first_nonempty (price_candidates ?e) = None"
    by code_simp
  have shape: "extract_product_data doc =
      [(''title'', the (map_of (extract_product_data doc) ''title'')),
       (''price'', the (map_of (extract_product_data doc) ''price''))]" for doc
    by (simp add: extract_product_data_def Let_def)
  show ?thesis
    using chain_takes_first_present [of ?d] chain_takes_first_present [of ?e] a b c d
      shape [of ?d] shape [of ?e]
    by simp
qed

text \<open>
  Claim C4 as stated fails: on a page with an empty element of id \<open>productTitle\<close>
  followed by \<open><title>Widget</title>\<close>, the first non-empty match of the title chain is
  \<open>Widget\<close>, and the title returned is the sentinel.
\<close>

theorem empty_first_match_hides_later:
  "spec_first_nonempty (title_candidates
       [Elem ''span'' [(''id'', ''productTitle'')] [], Elem ''title'' [] [Text NavStr ''Widget'']])
     = Some ''Widget''
   \<and> extract_product_data
       [Elem ''span'' [(''id'', ''productTitle'')] [], Elem ''title'' [] [Text NavStr ''Widget'']]
     = [(''title'', JStr ''No Title Found''), (''price'', JStr ''No Price Found'')]"
  by code_simp

text \<open>
  Claim C9. For every page, \<open>extract_product_data\<close> returns a \<open>title\<close> and a \<open>price\<close>
  that are strings and not empty. So for a row whose page was resolved, the test
  \<open>any(product_data.values())\<close> never fails: the row is appended, or an exception
  leaves the row, and the branch that drops the row is never taken.
\<close>

theorem extraction_never_empty:
  "(\<exists>t p. extract_product_data doc = [(''title'', JStr t), (''price'', JStr p)] \<and> t \<noteq> [] \<and> p \<noteq> [])
   \<and> process_row to_datetime record_dict doc \<noteq> Inr None"
proof -
  obtain t p where e: "extract_product_data doc = [(''title'', JStr t), (''price'', JStr p)]"
    and ne: "t \<noteq> []" "p \<noteq> []"
    by (simp add: extract_product_data_def Let_def)
  have "process_row to_datetime record_dict doc \<noteq> Inr None"
    using ne by (simp add: process_row_def e Let_def split: option.splits sum.splits py_error.splits)
  with e ne show ?thesis
    by blast
qed

theorem extraction_never_empty_witness:
  "process_row (\<lambda>v. Inl ValueError)
      [(''url'', JStr ''http://a''), (''fetch_time'', JStr ''yesterday'')] [Elem ''p'' [] []]
     = Inr (Some [(''title'', JStr ''No Title Found''), (''price'', JStr ''No Price Found''),
                  (''url'', JStr ''http://a''), (''fetch_time'', JNull)])"
proof -
  have e: "extract_product_data [Elem ''p'' [] []]
      = [(''title'', JStr ''No Title Found''), (''price'', JStr ''No Price Found'')]"
    by code_simp
  show ?thesis
    using extraction_never_empty [of "[Elem ''p'' [] []]" "\<lambda>v. Inl ValueError"
        "[(''url'', JStr ''http://a''), (''fetch_time'', JStr ''yesterday'')]"]
    by (simp add: process_row_def e)
qed

section \<open>Properties of the analysis stage\<close>

subsection \<open>Segmenting\<close>

lemma bucket_update:
  "bucket (AList.update y b segs) y' = (if y' = y then b else bucket segs y')"
  by (simp add: bucket_def update_conv')

lemma bucket_append_price_same:
  "bucket (append_price segs y t p) y =
     (case t of Low \<Rightarrow> (bucket segs y)\<lparr>low := low (bucket segs y) @ [p]\<rparr>
              | Mid \<Rightarrow> (bucket segs y)\<lparr>mid := mid (bucket segs y) @ [p]\<rparr>
              | High \<Rightarrow> (bucket segs y)\<lparr>high := high (bucket segs y) @ [p]\<rparr>)"
  by (simp add: append_price_def Let_def bucket_update)

lemma bucket_append_price_other:
  "y' \<noteq> y \<Longrightarrow> bucket (append_price segs y t p) y' = bucket segs y'"
  by (simp add: append_price_def Let_def bucket_update)

lemma price_tier_cases:
  "price_tier p = (if 100 \<le> p \<and> p \<le> 300 then Some Low
                   else if 300 < p \<and> p \<le> 700 then Some Mid
                   else if 700 < p then Some High else None)"
  by (simp add: price_tier_def LOW_PRICE_THRESHOLD_def MID_PRICE_THRESHOLD_def)

lemma priced_entries:
  "map_of entries ''fetch_time'' = Some (JStr ft) \<Longrightarrow> ft \<noteq> []
   \<Longrightarrow> map_of entries ''price'' = Some (JNum p)
   \<Longrightarrow> priced (JObj entries) = Some (take 4 ft, p)"
  by (simp add: priced_def)

lemma prices_where_one:
  "prices_where P y [r] =
     (case priced r of None \<Rightarrow> [] | Some yp \<Rightarrow> if fst yp = y \<and> P (snd yp) then [snd yp] else [])"
  by (simp add: prices_where_def map_filter_simps split: option.splits)

lemma prices_where_Cons:
  "prices_where P y (r # rs) = prices_where P y [r] @ prices_where P y rs"
  by (simp add: prices_where_def map_filter_simps split: option.splits)

lemma segment_record_priced:
  assumes "priced r = Some (y, p)"
  shows "segment_record segs r =
           Inr (case price_tier p of None \<Rightarrow> segs | Some t \<Rightarrow> append_price segs y t p)"
  using assms
  by (auto simp: priced_def segment_record_def split: json.splits option.splits if_splits)

lemma segment_record_unpriced:
  assumes "priced r = None" and "segment_record segs r = Inr segs'"
  shows "segs' = segs"
  using assms
  by (auto simp: priced_def segment_record_def
      split: json.splits option.splits if_splits sum.splits)

lemma segment_record_buckets:
  assumes "segment_record segs r = Inr segs'"
  shows "low (bucket segs' y) = low (bucket segs y) @ prices_where (\<lambda>p. 100 \<le> p \<and> p \<le> 300) y [r]"
    and "mid (bucket segs' y) = mid (bucket segs y) @ prices_where (\<lambda>p. 300 < p \<and> p \<le> 700) y [r]"
    and "high (bucket segs' y) = high (bucket segs y) @ prices_where (\<lambda>p. 700 < p) y [r]"
proof -
  have "low (bucket segs' y) = low (bucket segs y) @ prices_where (\<lambda>p. 100 \<le> p \<and> p \<le> 300) y [r]
    \<and> mid (bucket segs' y) = mid (bucket segs y) @ prices_where (\<lambda>p. 300 < p \<and> p \<le> 700) y [r]
    \<and> high (bucket segs' y) = high (bucket segs y) @ prices_where (\<lambda>p. 700 < p) y [r]"
  proof (cases "priced r")
    case None
    with assms have "segs' = segs"
      by (simp add: segment_record_unpriced)
    with None show ?thesis
      by (simp add: prices_where_one)
  next
    case (Some yp)
    obtain y' p where yp: "yp = (y', p)"
      by (cases yp)
    have r: "segs' = (case price_tier p of None \<Rightarrow> segs | Some t \<Rightarrow> append_price segs y' t p)"
      using assms segment_record_priced [of r y' p segs] Some yp by simp
    show ?thesis
    proof (cases "y' = y")
      case True
      then show ?thesis
        by (auto simp: r Some yp prices_where_one price_tier_cases bucket_append_price_same)
    next
      case False
      then show ?thesis
        by (auto simp: r Some yp prices_where_one price_tier_cases bucket_append_price_other)
    qed
  qed
  then show "low (bucket segs' y) = low (bucket segs y) @ prices_where (\<lambda>p. 100 \<le> p \<and> p \<le> 300) y [r]"
    and "mid (bucket segs' y) = mid (bucket segs y) @ prices_where (\<lambda>p. 300 < p \<and> p \<le> 700) y [r]"
    and "high (bucket segs' y) = high (bucket segs y) @ prices_where (\<lambda>p. 700 < p) y [r]"
    by simp_all
qed

lemma segment_loop_buckets:
  assumes "segment_loop segs rs = Inr segs'"
  shows "low (bucket segs' y) = low (bucket segs y) @ prices_where (\<lambda>p. 100 \<le> p \<and> p \<le> 300) y rs
    \<and> mid (bucket segs' y) = mid (bucket segs y) @ prices_where (\<lambda>p. 300 < p \<and> p \<le> 700) y rs
    \<and> high (bucket segs' y) = high (bucket segs y) @ prices_where (\<lambda>p. 700 < p) y rs"
  using assms
proof (induction segs rs rule: segment_loop.induct)
  case (1 segs)
  then show ?case
    by (simp add: prices_where_def map_filter_simps)
next
  case (2 segs r rs)
  from "2.prems" obtain mid_segs where step: "segment_record segs r = Inr mid_segs"
    and rest: "segment_loop mid_segs rs = Inr segs'"
    by (auto split: sum.splits)
  note ih = "2.IH" [OF step rest]
  show ?case
    using ih segment_record_buckets [OF step, of y]
    by (simp add: prices_where_Cons [of _ y r rs])
qed

lemma segment_loop_total:
  "list_all (\<lambda>r. priced r \<noteq> None) rs \<Longrightarrow> \<exists>segs'. segment_loop segs rs = Inr segs'"
proof (induction rs arbitrary: segs)
  case Nil
  then show ?case by simp
next
  case (Cons r rs)
  then obtain y p where "priced r = Some (y, p)"
    by auto
  then show ?case
    using Cons by (simp add: segment_record_priced)
qed

subsection \<open>Statistics of a bucket\<close>

lemma foldl_max_Max: "foldl max x xs = Max (set (x # xs))"
proof (induction xs arbitrary: x)
  case Nil
  then show ?case by simp
next
  case (Cons y ys)
  have "Max (insert x (insert y (set ys))) = Max (insert (max x y) (set ys))"
    by (metis List.finite_set Max_insert Max_singleton finite.insertI insert_not_empty max.assoc max.commute)
  with Cons show ?case
    by simp
qed

lemma foldl_min_Min: "foldl min x xs = Min (set (x # xs))"
proof (induction xs arbitrary: x)
  case Nil
  then show ?case by simp
next
  case (Cons y ys)
  have "Min (insert x (insert y (set ys))) = Min (insert (min x y) (set ys))"
    by (metis List.finite_set Min_insert Min_singleton finite.insertI insert_not_empty min.assoc min.commute)
  with Cons show ?case
    by simp
qed

lemma calculate_statistics_nonempty:
  assumes "prices \<noteq> []"
  shows "calculate_statistics lib prices =
     \<lparr>average = Some (lib_round2 lib (lib_mean lib prices)),
      maximum = Some (lib_round2 lib (Max (set prices))),
      minimum = Some (lib_round2 lib (Min (set prices))),
      stdev = (if length prices > 1 then Some (lib_round2 lib (lib_stdev lib prices))
               else Some 0)\<rparr>"
proof (cases prices)
  case Nil
  with assms show ?thesis by simp
next
  case (Cons x xs)
  then show ?thesis
    by (simp add: foldl_max_Max foldl_min_Min Let_def del: Max_insert Min_insert set_simps)
qed

lemma round_half_even_int: "round_half_even (of_int k) = k"
  by (simp add: round_half_even_def)

lemma exact_round2_fixed: "exact_round2 (of_int k / 100) = of_int k / 100"
  by (simp add: exact_round2_def round_half_even_int)

text \<open>
  Claim C3, amended. \<open>calculate_statistics\<close> of the empty list returns four nulls.
  For one price \<open>x\<close> it returns max and min equal to \<open>round(x, 2)\<close>, the average
  \<open>round(mean([x]), 2)\<close>, which is \<open>round(x, 2)\<close> too as the mean of one number is that
  number, and a standard deviation of 0. For every list that is not empty, average, max
  and min are \<open>statistics.mean\<close> of the prices, the greatest and the least price, each
  rounded with \<open>round(_, 2)\<close>, and the standard deviation is \<open>statistics.stdev\<close> of the
  prices rounded with \<open>round(_, 2)\<close> when there are two prices or more, 0 otherwise.
\<close>

theorem statistics_rounded:
  "calculate_statistics lib [] = \<lparr>average = None, maximum = None, minimum = None, stdev = None\<rparr>
   \<and> calculate_statistics lib [x] =
       \<lparr>average = Some (lib_round2 lib (lib_mean lib [x])), maximum = Some (lib_round2 lib x),
        minimum = Some (lib_round2 lib x), stdev = Some 0\<rparr>
   \<and> (lib_mean lib [x] = x \<longrightarrow>
        calculate_statistics lib [x] =
          \<lparr>average = Some (lib_round2 lib x), maximum = Some (lib_round2 lib x),
           minimum = Some (lib_round2 lib x), stdev = Some 0\<rparr>)
   \<and> (prices \<noteq> [] \<longrightarrow>
        calculate_statistics lib prices =
          \<lparr>average = Some (lib_round2 lib (lib_mean lib prices)),
           maximum = Some (lib_round2 lib (Max (set prices))),
           minimum = Some (lib_round2 lib (Min (set prices))),
           stdev = (if length prices > 1 then Some (lib_round2 lib (lib_stdev lib prices))
                    else Some 0)\<rparr>)"
proof (intro conjI impI)
  show "calculate_statistics lib [] = \<lparr>average = None, maximum = None, minimum = None, stdev = None\<rparr>"
    by simp
  show "calculate_statistics lib [x] =
       \<lparr>average = Some (lib_round2 lib (lib_mean lib [x])), maximum = Some (lib_round2 lib x),
        minimum = Some (lib_round2 lib x), stdev = Some 0\<rparr>"
    by simp
  show "calculate_statistics lib [x] =
          \<lparr>average = Some (lib_round2 lib x), maximum = Some (lib_round2 lib x),
           minimum = Some (lib_round2 lib x), stdev = Some 0\<rparr>"
    if "lib_mean lib [x] = x"
    using that by simp
  show "calculate_statistics lib prices =
          \<lparr>average = Some (lib_round2 lib (lib_mean lib prices)),
           maximum = Some (lib_round2 lib (Max (set prices))),
           minimum = Some (lib_round2 lib (Min (set prices))),
           stdev = (if length prices > 1 then Some (lib_round2 lib (lib_stdev lib prices))
                    else Some 0)\<rparr>"
    if "prices \<noteq> []"
    using that by (rule calculate_statistics_nonempty)
qed

theorem statistics_rounded_witness:
  "lib_mean exact_lib [150] = 150
   \<and> calculate_statistics exact_lib [150] =
     \<lparr>average = Some 150, maximum = Some 150, minimum = Some 150, stdev = Some 0\<rparr>
   \<and> calculate_statistics exact_lib [100, 200, 300] =
     \<lparr>average = Some 200, maximum = Some 300, minimum = Some 100, stdev = Some 100\<rparr>"
proof -
  have m: "exact_mean [100, 200, 300] = 200" "exact_mean [150] = 150"
    by (simp_all add: exact_mean_def)
  have "sqrt ((100::real)\<^sup>2) = 100"
    by (simp del: power2_eq_square)
  then have s: "exact_stdev [100, 200, 300] = 100"
    by (simp add: exact_stdev_def m)
  have r: "exact_round2 100 = 100" "exact_round2 200 = 200" "exact_round2 300 = 300"
    "exact_round2 150 = 150"
    using exact_round2_fixed [of 10000] exact_round2_fixed [of 20000]
      exact_round2_fixed [of 30000] exact_round2_fixed [of 15000]
    by simp_all
  have one: "lib_mean exact_lib [150] = 150"
    by (simp add: exact_lib_def m)
  note main = statistics_rounded [of exact_lib 150 "[100, 200, 300]"]
  have a: "calculate_statistics exact_lib [150] =
     \<lparr>average = Some 150, maximum = Some 150, minimum = Some 150, stdev = Some 0\<rparr>"
    using main [THEN conjunct2, THEN conjunct2, THEN conjunct1, rule_format, OF one]
    by (simp add: exact_lib_def r)
  have b: "calculate_statistics exact_lib [100, 200, 300] =
     \<lparr>average = Some 200, maximum = Some 300, minimum = Some 100, stdev = Some 100\<rparr>"
    using main [THEN conjunct2, THEN conjunct2, THEN conjunct2]
    by (simp add: exact_lib_def m s r)
  from one a b show ?thesis
    by simp
qed

text \<open>
  Claim C3 as stated fails: for a single price the max and the min returned are
  \<open>round(x, 2)\<close>, whatever the library. For the price \<open>150.0078125\<close> (that is
  19201/128, which a binary float holds exactly) \<open>round\<close> gives \<open>150.01\<close>: the
  average, the max and the min are \<open>150.01\<close>, not the price.
\<close>

theorem single_price_is_rounded:
  "(\<forall>lib. maximum (calculate_statistics lib [19201 / 128]) = Some (lib_round2 lib (19201 / 128))
         \<and> minimum (calculate_statistics lib [19201 / 128]) = Some (lib_round2 lib (19201 / 128)))
   \<and> calculate_statistics exact_lib [19201 / 128] =
     \<lparr>average = Some (15001 / 100), maximum = Some (15001 / 100),
      minimum = Some (15001 / 100), stdev = Some 0\<rparr>
   \<and> (15001 / 100 :: real) \<noteq> 19201 / 128"
  by (simp add: exact_lib_def exact_mean_def exact_round2_def round_half_even_def)

subsection \<open>Inflation between consecutive years\<close>

lemma map_insort_key: "map f (insort_key f x xs) = insort (f x) (map f xs)"
  by (induction xs) simp_all

lemma map_sort_key: "map f (sort_key f xs) = sort (map f xs)"
  by (induction xs) (simp_all add: map_insort_key)

lemma map_fst_summarize: "map fst (summarize lib segs) = map fst segs"
  by (simp add: summarize_def case_prod_unfold)

lemma segment_record_distinct:
  "segment_record segs r = Inr segs' \<Longrightarrow> distinct (map fst segs) \<Longrightarrow> distinct (map fst segs')"
  by (auto simp: segment_record_def append_price_def Let_def distinct_update
      split: json.splits option.splits if_splits sum.splits)

lemma segment_loop_distinct:
  "segment_loop segs rs = Inr segs' \<Longrightarrow> distinct (map fst segs) \<Longrightarrow> distinct (map fst segs')"
  by (induction segs rs rule: segment_loop.induct)
     (auto split: sum.splits dest: segment_record_distinct)

lemma inflation_loop_zip:
  "inflation_loop lib ys =
     (map (\<lambda>(p, c). fst (inflation_year lib p c)) (zip ys (tl ys)),
      concat (map (\<lambda>(p, c). snd (inflation_year lib p c)) (zip ys (tl ys))))"
  by (induction lib ys rule: inflation_loop.induct) (simp_all add: Let_def)

lemma analyze_data_shape:
  assumes "analyze_data lib records = Inr out"
  shows "sorted (map fst (yearly_segment_summary out))"
    and "distinct (map fst (yearly_segment_summary out))"
    and "inflation_summary out =
           map (\<lambda>(p, c). fst (inflation_year lib p c))
             (zip (yearly_segment_summary out) (tl (yearly_segment_summary out)))"
    and "inflation_analysis out =
           concat (map (\<lambda>(p, c). snd (inflation_year lib p c))
             (zip (yearly_segment_summary out) (tl (yearly_segment_summary out))))"
proof -
  from assms obtain segs where segs: "segment_loop [] records = Inr segs"
    and out: "out = \<lparr>inflation_analysis = snd (inflation_loop lib (sort_key fst (summarize lib segs))),
                     inflation_summary = fst (inflation_loop lib (sort_key fst (summarize lib segs))),
                     yearly_segment_summary = sort_key fst (summarize lib segs)\<rparr>"
    by (auto simp: analyze_data_def Let_def split: sum.splits)
  show "sorted (map fst (yearly_segment_summary out))"
    by (simp add: out sorted_sort_key)
  have "distinct (map fst segs)"
    using segment_loop_distinct [OF segs] by simp
  then show "distinct (map fst (yearly_segment_summary out))"
    by (simp add: out map_sort_key map_fst_summarize)
  show "inflation_summary out =
           map (\<lambda>(p, c). fst (inflation_year lib p c))
             (zip (yearly_segment_summary out) (tl (yearly_segment_summary out)))"
    by (simp add: out inflation_loop_zip)
  show "inflation_analysis out =
           concat (map (\<lambda>(p, c). snd (inflation_year lib p c))
             (zip (yearly_segment_summary out) (tl (yearly_segment_summary out))))"
    by (simp add: out inflation_loop_zip)
qed

lemma inflation_year_fst:
  "fst (inflation_year lib p c) =
     (fst c,
      \<lparr>low = fst (inflation_segment lib (fst p) (fst c) Low (average (low (snd p))) (average (low (snd c)))),
       mid = fst (inflation_segment lib (fst p) (fst c) Mid (average (mid (snd p))) (average (mid (snd c)))),
       high = fst (inflation_segment lib (fst p) (fst c) High (average (high (snd p))) (average (high (snd c))))\<rparr>)"
  by (simp add: inflation_year_def Let_def)

lemma inflation_year_snd:
  "snd (inflation_year lib p c) =
     concat (map (\<lambda>t. snd (inflation_segment lib (fst p) (fst c) t
                            (average (tier_get t (snd p))) (average (tier_get t (snd c)))))
               [Low, Mid, High])"
  by (simp add: inflation_year_def Let_def)


lemma inflation_segment_rate:
  "prev \<noteq> 0 \<Longrightarrow>
   inflation_segment lib py cy t (Some prev) (Some cur) =
     (Some (lib_round2 lib (lib_mul lib (lib_div lib (lib_sub lib cur prev) prev) 100)),
      if 0 < lib_mul lib (lib_div lib (lib_sub lib cur prev) prev) 100
      then [''The inflation increased from year '' @ py @ '' to '' @ cy @ '' by ''
              @ lib_str lib (lib_round2 lib (lib_mul lib (lib_div lib (lib_sub lib cur prev) prev) 100))
              @ ''% in the '' @ tier_name t @ '' segment.'']
      else if lib_mul lib (lib_div lib (lib_sub lib cur prev) prev) 100 < 0
      then [''The inflation decreased from year '' @ py @ '' to '' @ cy @ '' by ''
              @ lib_str lib (lib_round2 lib \<bar>lib_mul lib (lib_div lib (lib_sub lib cur prev) prev) 100\<bar>)
              @ ''% in the '' @ tier_name t @ '' segment.'']
      else [])"
  by (simp add: inflation_segment_def Let_def)

lemma inflation_segment_null:
  "prev_avg = None \<or> curr_avg = None \<or> prev_avg = Some 0 \<Longrightarrow>
   inflation_segment lib py cy t prev_avg curr_avg = (None, [])"
  by (auto simp: inflation_segment_def split: option.splits)


subsection \<open>No average is below 100\<close>










subsection \<open>The library without rounding keeps prices at 100 or more\<close>






subsection \<open>A run of the analysis\<close>

lemma analyze_data_example:
  "analyze_data exact_lib
     [JObj [(''fetch_time'', JStr ''2023-01-05T10:00:00''), (''price'', JNum 150)],
      JObj [(''fetch_time'', JStr ''2023-02-05T10:00:00''), (''price'', JNum 99)],
      JObj [(''fetch_time'', JStr ''2022-01-05T10:00:00''), (''price'', JNum 100)],
      JObj [(''fetch_time'', JStr ''2021-03-01T00:00:00''), (''price'', JNum 150)],
      JObj [(''fetch_time'', JStr ''2021-04-01T00:00:00''), (''price'', JNum 800)]]
   = Inr \<lparr>inflation_analysis =
            [''The inflation decreased from year 2021 to 2022 by 33.33% in the low segment.'',
             ''The inflation increased from year 2022 to 2023 by 50.0% in the low segment.''],
          inflation_summary =
            [(''2022'', \<lparr>low = Some (- (3333 / 100)), mid = None, high = None\<rparr>),
             (''2023'', \<lparr>low = Some 50, mid = None, high = None\<rparr>)],
          yearly_segment_summary =
            [(''2021'', \<lparr>low = \<lparr>average = Some 150, maximum = Some 150, minimum = Some 150, stdev = Some 0\<rparr>,
                         mid = \<lparr>average = None, maximum = None, minimum = None, stdev = None\<rparr>,
                         high = \<lparr>average = Some 800, maximum = Some 800, minimum = Some 800, stdev = Some 0\<rparr>\<rparr>),
             (''2022'', \<lparr>low = \<lparr>average = Some 100, maximum = Some 100, minimum = Some 100, stdev = Some 0\<rparr>,
                         mid = \<lparr>average = None, maximum = None, minimum = None, stdev = None\<rparr>,
                         high = \<lparr>average = None, maximum = None, minimum = None, stdev = None\<rparr>\<rparr>),
             (''2023'', \<lparr>low = \<lparr>average = Some 150, maximum = Some 150, minimum = Some 150, stdev = Some 0\<rparr>,
                         mid = \<lparr>average = None, maximum = None, minimum = None, stdev = None\<rparr>,
                         high = \<lparr>average = None, maximum = None, minimum = None, stdev = None\<rparr>\<rparr>)]\<rparr>"
proof -
  let ?records = "[JObj [(''fetch_time'', JStr ''2023-01-05T10:00:00''), (''price'', JNum 150)],
      JObj [(''fetch_time'', JStr ''2023-02-05T10:00:00''), (''price'', JNum 99)],
      JObj [(''fetch_time'', JStr ''2022-01-05T10:00:00''), (''price'', JNum 100)],
      JObj [(''fetch_time'', JStr ''2021-03-01T00:00:00''), (''price'', JNum 150)],
      JObj [(''fetch_time'', JStr ''2021-04-01T00:00:00''), (''price'', JNum 800)]]"
  have segs: "segment_loop [] ?records =
      Inr [(''2023'', \<lparr>low = [150], mid = [], high = []\<rparr>),
           (''2022'', \<lparr>low = [100], mid = [], high = []\<rparr>),
           (''2021'', \<lparr>low = [150], mid = [], high = [800]\<rparr>)]"
    by (simp add: segment_record_def price_tier_def LOW_PRICE_THRESHOLD_def
        MID_PRICE_THRESHOLD_def append_price_def bucket_def)
  have r: "exact_round2 150 = 150" "exact_round2 100 = 100" "exact_round2 50 = 50"
    "exact_round2 800 = 800"
    using exact_round2_fixed [of 15000] exact_round2_fixed [of 10000] exact_round2_fixed [of 5000]
      exact_round2_fixed [of 80000]
    by simp_all
  have q: "exact_round2 (100 / 3) = 3333 / 100" "exact_round2 (- (100 / 3)) = - (3333 / 100)"
    by (simp_all add: exact_round2_def round_half_even_def)
  have s: "hundredths_str 50 = ''50.0''" "hundredths_str (3333 / 100) = ''33.33''"
    by code_simp+
  have srt: "sort_key fst [(''2023'', a), (''2022'', b), (''2021'', c)]
      = [(''2021'', c), (''2022'', b), (''2023'', a)]" for a b c :: "stats by_tier"
    by code_simp
  have none: "inflation_segment exact_lib py cy t None x = (None, [])"
    "inflation_segment exact_lib py cy t (Some 800) None = (None, [])" for py cy t x
    by (simp_all add: inflation_segment_def)
  have up: "inflation_segment exact_lib ''2022'' ''2023'' Low (Some 100) (Some 150)
      = (Some 50, [''The inflation increased from year 2022 to 2023 by 50.0% in the low segment.''])"
    by (simp add: inflation_segment_rate exact_lib_def r s)
  have down: "inflation_segment exact_lib ''2021'' ''2022'' Low (Some 150) (Some 100)
      = (Some (- (3333 / 100)), [''The inflation decreased from year 2021 to 2022 by 33.33% in the low segment.''])"
    by (simp add: inflation_segment_rate exact_lib_def q s)
  have st: "calculate_statistics exact_lib [150]
      = \<lparr>average = Some 150, maximum = Some 150, minimum = Some 150, stdev = Some 0\<rparr>"
    "calculate_statistics exact_lib [100]
      = \<lparr>average = Some 100, maximum = Some 100, minimum = Some 100, stdev = Some 0\<rparr>"
    "calculate_statistics exact_lib [800]
      = \<lparr>average = Some 800, maximum = Some 800, minimum = Some 800, stdev = Some 0\<rparr>"
    by (simp_all add: exact_lib_def exact_mean_def r)
  have st0: "calculate_statistics exact_lib []
      = \<lparr>average = None, maximum = None, minimum = None, stdev = None\<rparr>"
    by simp
  show ?thesis
    unfolding analyze_data_def segs
    by (simp add: summarize_def st st0 srt inflation_year_def none up down Let_def
        del: calculate_statistics.simps)
qed

text \<open>
  Claim C1. The segmenter is the loop over the records. For every year \<open>y\<close>, when the
  loop ends the tier \<open>low\<close> of the bucket of \<open>y\<close> has gained, in the order of the
  records, the prices \<open>p\<close> with \<open>100 \<le> p \<le> 300\<close> of the records of year \<open>y\<close> that have
  a capture time and a numeric price, the tier \<open>mid\<close> those with \<open>300 < p \<le> 700\<close>, the
  tier \<open>high\<close> those with \<open>p > 700\<close>, and nothing else: each such price is in exactly
  one tier when \<open>p \<ge> 100\<close> and in none when \<open>p < 100\<close>. The loop ends without an
  exception when every record has a capture time and a numeric price, and
  \<open>analyze_data\<close> summarizes the buckets of that loop. A record with the capture time
  \<open>ft\<close> (a string that is not empty) and the numeric price \<open>p\<close> is a record of year
  \<open>ft[:4]\<close> and price \<open>p\<close>.
\<close>

theorem segmenter_tiers:
  "(segment_loop segs records = Inr segs' \<longrightarrow>
      (\<forall>y. low (bucket segs' y)
             = low (bucket segs y) @ prices_where (\<lambda>p. 100 \<le> p \<and> p \<le> 300) y records
         \<and> mid (bucket segs' y)
             = mid (bucket segs y) @ prices_where (\<lambda>p. 300 < p \<and> p \<le> 700) y records
         \<and> high (bucket segs' y)
             = high (bucket segs y) @ prices_where (\<lambda>p. 700 < p) y records))
   \<and> (list_all (\<lambda>r. priced r \<noteq> None) records \<longrightarrow>
        (\<exists>segs'. segment_loop segs records = Inr segs'))
   \<and> (analyze_data lib records = Inr out \<longrightarrow>
        (\<exists>segs'. segment_loop [] records = Inr segs'
           \<and> yearly_segment_summary out = sort_key fst (summarize lib segs')))
   \<and> (map_of entries ''fetch_time'' = Some (JStr ft) \<and> ft \<noteq> []
        \<and> map_of entries ''price'' = Some (JNum p) \<longrightarrow>
          priced (JObj entries) = Some (take 4 ft, p)
        \<and> prices_where P y (JObj entries # records)
            = (if take 4 ft = y \<and> P p then [p] else []) @ prices_where P y records)"
proof (intro conjI impI allI)
  fix y
  assume "segment_loop segs records = Inr segs'"
  note b = segment_loop_buckets [OF this, of y]
  from b show "low (bucket segs' y)
             = low (bucket segs y) @ prices_where (\<lambda>p. 100 \<le> p \<and> p \<le> 300) y records"
    by simp
  from b show "mid (bucket segs' y)
             = mid (bucket segs y) @ prices_where (\<lambda>p. 300 < p \<and> p \<le> 700) y records"
    by simp
  from b show "high (bucket segs' y)
             = high (bucket segs y) @ prices_where (\<lambda>p. 700 < p) y records"
    by simp
next
  assume "list_all (\<lambda>r. priced r \<noteq> None) records"
  then show "\<exists>segs'. segment_loop segs records = Inr segs'"
    by (rule segment_loop_total)
next
  assume "analyze_data lib records = Inr out"
  then show "\<exists>segs'. segment_loop [] records = Inr segs'
           \<and> yearly_segment_summary out = sort_key fst (summarize lib segs')"
    by (auto simp: analyze_data_def Let_def split: sum.splits)
next
  assume a: "map_of entries ''fetch_time'' = Some (JStr ft) \<and> ft \<noteq> []
        \<and> map_of entries ''price'' = Some (JNum p)"
  then show pr: "priced (JObj entries) = Some (take 4 ft, p)"
    by (simp add: priced_entries)
  show "prices_where P y (JObj entries # records)
            = (if take 4 ft = y \<and> P p then [p] else []) @ prices_where P y records"
    by (simp add: prices_where_Cons [of P y "JObj entries" records] prices_where_one pr)
qed

theorem segmenter_tiers_witness:
  "segment_loop []
     [JObj [(''fetch_time'', JStr ''2023-01-05T10:00:00''), (''price'', JNum 150)],
      JObj [(''fetch_time'', JStr ''2023-02-05T10:00:00''), (''price'', JNum 99)],
      JObj [(''fetch_time'', JStr ''2022-01-05T10:00:00''), (''price'', JNum 100)],
      JObj [(''fetch_time'', JStr ''2021-03-01T00:00:00''), (''price'', JNum 150)],
      JObj [(''fetch_time'', JStr ''2021-04-01T00:00:00''), (''price'', JNum 800)]]
     = Inr [(''2023'', \<lparr>low = [150], mid = [], high = []\<rparr>),
            (''2022'', \<lparr>low = [100], mid = [], high = []\<rparr>),
            (''2021'', \<lparr>low = [150], mid = [], high = [800]\<rparr>)]
   \<and> prices_where (\<lambda>p. 100 \<le> p \<and> p \<le> 300) ''2023''
     [JObj [(''fetch_time'', JStr ''2023-01-05T10:00:00''), (''price'', JNum 150)],
      JObj [(''fetch_time'', JStr ''2023-02-05T10:00:00''), (''price'', JNum 99)],
      JObj [(''fetch_time'', JStr ''2022-01-05T10:00:00''), (''price'', JNum 100)],
      JObj [(''fetch_time'', JStr ''2021-03-01T00:00:00''), (''price'', JNum 150)],
      JObj [(''fetch_time'', JStr ''2021-04-01T00:00:00''), (''price'', JNum 800)]]
     = [150]
   \<and> prices_where (\<lambda>p. 700 < p) ''2021''
     [JObj [(''fetch_time'', JStr ''2023-01-05T10:00:00''), (''price'', JNum 150)],
      JObj [(''fetch_time'', JStr ''2023-02-05T10:00:00''), (''price'', JNum 99)],
      JObj [(''fetch_time'', JStr ''2022-01-05T10:00:00''), (''price'', JNum 100)],
      JObj [(''fetch_time'', JStr ''2021-03-01T00:00:00''), (''price'', JNum 150)],
      JObj [(''fetch_time'', JStr ''2021-04-01T00:00:00''), (''price'', JNum 800)]]
     = [800]
   \<and> map (\<lambda>ys. (fst ys, average (low (snd ys)), average (mid (snd ys)), average (high (snd ys))))
       (sort_key fst (summarize exact_lib
          [(''2023'', \<lparr>low = [150], mid = [], high = []\<rparr>),
           (''2022'', \<lparr>low = [100], mid = [], high = []\<rparr>),
           (''2021'', \<lparr>low = [150], mid = [], high = [800]\<rparr>)]))
     = [(''2021'', Some 150, None, Some 800), (''2022'', Some 100, None, None),
        (''2023'', Some 150, None, None)]
   \<and> priced (JObj [(''fetch_time'', JStr ''2023-02-05T10:00:00''), (''price'', JNum 99)])
       = Some (''2023'', 99)"
proof -
  let ?a = "JObj [(''fetch_time'', JStr ''2023-01-05T10:00:00''), (''price'', JNum 150)]"
  let ?b = "JObj [(''fetch_time'', JStr ''2023-02-05T10:00:00''), (''price'', JNum 99)]"
  let ?c = "JObj [(''fetch_time'', JStr ''2022-01-05T10:00:00''), (''price'', JNum 100)]"
  let ?d = "JObj [(''fetch_time'', JStr ''2021-03-01T00:00:00''), (''price'', JNum 150)]"
  let ?e = "JObj [(''fetch_time'', JStr ''2021-04-01T00:00:00''), (''price'', JNum 800)]"
  let ?segs = "[(''2023'', \<lparr>low = [150::real], mid = [], high = []\<rparr>),
            (''2022'', \<lparr>low = [100], mid = [], high = []\<rparr>),
            (''2021'', \<lparr>low = [150], mid = [], high = [800]\<rparr>)]"
  note ex = analyze_data_example
  note main = segmenter_tiers [where segs = "[]" and records = "[?a, ?b, ?c, ?d, ?e]"
      and segs' = ?segs and lib = exact_lib
      and entries = "[(''fetch_time'', JStr ''2023-02-05T10:00:00''), (''price'', JNum 99)]"
      and ft = "''2023-02-05T10:00:00''" and p = 99]
  have pr: "priced ?a = Some (''2023'', 150)" "priced ?c = Some (''2022'', 100)"
    "priced ?d = Some (''2021'', 150)" "priced ?e = Some (''2021'', 800)"
    by (simp_all add: priced_def)
  have prb: "priced ?b = Some (''2023'', 99)"
    using main [THEN conjunct2, THEN conjunct2, THEN conjunct2] by simp
  have all: "list_all (\<lambda>r. priced r \<noteq> None) [?a, ?b, ?c, ?d, ?e]"
    by (simp add: pr prb)
  have run: "segment_loop [] [?a, ?b, ?c, ?d, ?e] = Inr ?segs"
    by (simp add: segment_record_priced pr prb price_tier_cases append_price_def bucket_def)
  from main [THEN conjunct2, THEN conjunct1, rule_format, OF all]
  have tot: "\<exists>segs'. segment_loop [] [?a, ?b, ?c, ?d, ?e] = Inr segs'" .
  have "low (bucket ?segs ''2023'')
      = low (bucket [] ''2023'') @ prices_where (\<lambda>p. 100 \<le> p \<and> p \<le> 300) ''2023'' [?a, ?b, ?c, ?d, ?e]"
    using main [THEN conjunct1, rule_format, OF run, of "''2023''"] by simp
  then have w: "prices_where (\<lambda>p. 100 \<le> p \<and> p \<le> 300) ''2023'' [?a, ?b, ?c, ?d, ?e] = [150]"
    by (simp add: bucket_def)
  have "high (bucket ?segs ''2021'')
      = high (bucket [] ''2021'') @ prices_where (\<lambda>p. 700 < p) ''2021'' [?a, ?b, ?c, ?d, ?e]"
    using main [THEN conjunct1, rule_format, OF run, of "''2021''"] by simp
  then have h: "prices_where (\<lambda>p. 700 < p) ''2021'' [?a, ?b, ?c, ?d, ?e] = [800]"
    by (simp add: bucket_def)
  from main [THEN conjunct2, THEN conjunct2, THEN conjunct1, rule_format, OF ex] run
  have s: "sort_key fst (summarize exact_lib ?segs) =
      [(''2021'', \<lparr>low = \<lparr>average = Some 150, maximum = Some 150, minimum = Some 150, stdev = Some 0\<rparr>,
                   mid = \<lparr>average = None, maximum = None, minimum = None, stdev = None\<rparr>,
                   high = \<lparr>average = Some 800, maximum = Some 800, minimum = Some 800, stdev = Some 0\<rparr>\<rparr>),
       (''2022'', \<lparr>low = \<lparr>average = Some 100, maximum = Some 100, minimum = Some 100, stdev = Some 0\<rparr>,
                   mid = \<lparr>average = None, maximum = None, minimum = None, stdev = None\<rparr>,
                   high = \<lparr>average = None, maximum = None, minimum = None, stdev = None\<rparr>\<rparr>),
       (''2023'', \<lparr>low = \<lparr>average = Some 150, maximum = Some 150, minimum = Some 150, stdev = Some 0\<rparr>,
                   mid = \<lparr>average = None, maximum = None, minimum = None, stdev = None\<rparr>,
                   high = \<lparr>average = None, maximum = None, minimum = None, stdev = None\<rparr>\<rparr>)]"
    by simp
  have m: "map (\<lambda>ys. (fst ys, average (low (snd ys)), average (mid (snd ys)), average (high (snd ys))))
       (sort_key fst (summarize exact_lib ?segs))
     = [(''2021'', Some 150, None, Some 800), (''2022'', Some 100, None, None),
        (''2023'', Some 150, None, None)]"
    unfolding s by simp
  from run w h m prb tot show ?thesis
    by simp
qed

text \<open>
  Claim C6. The inflation loop runs over the years of the summary sorted ascending
  (each year once) and, for each pair of consecutive years and each of the tiers low,
  mid, high in this order, stores one value and appends at most one sentence. When both
  averages are numbers and the previous one is not zero, the value is
  \<open>(cur - prev) / prev * 100\<close>, as Python computes it, rounded with \<open>round(_, 2)\<close>, and
  the sentence says that the inflation increased by the rounded rate when the rate is
  positive, decreased by the rounded absolute rate when it is negative, and there is no
  sentence when the rate is 0. Otherwise the value is null and there is no sentence.
  From 100 to 150, where Python computes the rate 50.0, the sentence reads
  "increased ... by 50.0%"; from 150 to 100, where Python computes a negative rate whose
  rounded absolute value prints as 33.33, it reads "decreased ... by 33.33%".
\<close>

theorem inflation_between_sorted_years:
  "(analyze_data lib records = Inr out \<longrightarrow>
      sorted (map fst (yearly_segment_summary out))
    \<and> distinct (map fst (yearly_segment_summary out))
    \<and> inflation_summary out =
        map (\<lambda>(p, c).
              (fst c,
               \<lparr>low = fst (inflation_segment lib (fst p) (fst c) Low
                             (average (low (snd p))) (average (low (snd c)))),
                mid = fst (inflation_segment lib (fst p) (fst c) Mid
                             (average (mid (snd p))) (average (mid (snd c)))),
                high = fst (inflation_segment lib (fst p) (fst c) High
                             (average (high (snd p))) (average (high (snd c))))\<rparr>))
          (zip (yearly_segment_summary out) (tl (yearly_segment_summary out)))
    \<and> inflation_analysis out =
        concat (map (\<lambda>(p, c).
                  concat (map (\<lambda>t. snd (inflation_segment lib (fst p) (fst c) t
                                         (average (tier_get t (snd p))) (average (tier_get t (snd c)))))
                            [Low, Mid, High]))
          (zip (yearly_segment_summary out) (tl (yearly_segment_summary out)))))
   \<and> (prev \<noteq> 0 \<longrightarrow>
        inflation_segment lib py cy t (Some prev) (Some cur) =
          (Some (lib_round2 lib (lib_mul lib (lib_div lib (lib_sub lib cur prev) prev) 100)),
           if 0 < lib_mul lib (lib_div lib (lib_sub lib cur prev) prev) 100
           then [''The inflation increased from year '' @ py @ '' to '' @ cy @ '' by ''
                   @ lib_str lib (lib_round2 lib
                        (lib_mul lib (lib_div lib (lib_sub lib cur prev) prev) 100))
                   @ ''% in the '' @ tier_name t @ '' segment.'']
           else if lib_mul lib (lib_div lib (lib_sub lib cur prev) prev) 100 < 0
           then [''The inflation decreased from year '' @ py @ '' to '' @ cy @ '' by ''
                   @ lib_str lib (lib_round2 lib
                        \<bar>lib_mul lib (lib_div lib (lib_sub lib cur prev) prev) 100\<bar>)
                   @ ''% in the '' @ tier_name t @ '' segment.'']
           else []))
   \<and> (prev_avg = None \<or> curr_avg = None \<or> prev_avg = Some 0 \<longrightarrow>
        inflation_segment lib py cy t prev_avg curr_avg = (None, []))
   \<and> (lib_sub lib 150 100 = 50 \<and> lib_div lib 50 100 = 1 / 2 \<and> lib_mul lib (1 / 2) 100 = 50
        \<and> lib_round2 lib 50 = 50 \<and> lib_str lib 50 = ''50.0'' \<longrightarrow>
        inflation_segment lib py cy t (Some 100) (Some 150) =
          (Some 50, [''The inflation increased from year '' @ py @ '' to '' @ cy
                       @ '' by 50.0% in the '' @ tier_name t @ '' segment.'']))
   \<and> (lib_mul lib (lib_div lib (lib_sub lib 100 150) 150) 100 = r \<and> r < 0
        \<and> lib_str lib (lib_round2 lib \<bar>r\<bar>) = ''33.33'' \<longrightarrow>
        inflation_segment lib py cy t (Some 150) (Some 100) =
          (Some (lib_round2 lib r),
           [''The inflation decreased from year '' @ py @ '' to '' @ cy
              @ '' by 33.33% in the '' @ tier_name t @ '' segment.'']))"
proof (intro conjI impI)
  assume a: "analyze_data lib records = Inr out"
  show "sorted (map fst (yearly_segment_summary out))"
    using a by (rule analyze_data_shape)
  show "distinct (map fst (yearly_segment_summary out))"
    using a by (rule analyze_data_shape)
  show "inflation_summary out =
        map (\<lambda>(p, c).
              (fst c,
               \<lparr>low = fst (inflation_segment lib (fst p) (fst c) Low
                             (average (low (snd p))) (average (low (snd c)))),
                mid = fst (inflation_segment lib (fst p) (fst c) Mid
                             (average (mid (snd p))) (average (mid (snd c)))),
                high = fst (inflation_segment lib (fst p) (fst c) High
                             (average (high (snd p))) (average (high (snd c))))\<rparr>))
          (zip (yearly_segment_summary out) (tl (yearly_segment_summary out)))"
    by (simp only: analyze_data_shape(3) [OF a] inflation_year_fst)
  show "inflation_analysis out =
        concat (map (\<lambda>(p, c).
                  concat (map (\<lambda>t. snd (inflation_segment lib (fst p) (fst c) t
                                         (average (tier_get t (snd p))) (average (tier_get t (snd c)))))
                            [Low, Mid, High]))
          (zip (yearly_segment_summary out) (tl (yearly_segment_summary out))))"
    by (simp only: analyze_data_shape(4) [OF a] inflation_year_snd)
next
  assume "prev \<noteq> 0"
  then show "inflation_segment lib py cy t (Some prev) (Some cur) =
          (Some (lib_round2 lib (lib_mul lib (lib_div lib (lib_sub lib cur prev) prev) 100)),
           if 0 < lib_mul lib (lib_div lib (lib_sub lib cur prev) prev) 100
           then [''The inflation increased from year '' @ py @ '' to '' @ cy @ '' by ''
                   @ lib_str lib (lib_round2 lib
                        (lib_mul lib (lib_div lib (lib_sub lib cur prev) prev) 100))
                   @ ''% in the '' @ tier_name t @ '' segment.'']
           else if lib_mul lib (lib_div lib (lib_sub lib cur prev) prev) 100 < 0
           then [''The inflation decreased from year '' @ py @ '' to '' @ cy @ '' by ''
                   @ lib_str lib (lib_round2 lib
                        \<bar>lib_mul lib (lib_div lib (lib_sub lib cur prev) prev) 100\<bar>)
                   @ ''% in the '' @ tier_name t @ '' segment.'']
           else [])"
    by (rule inflation_segment_rate)
next
  assume "prev_avg = None \<or> curr_avg = None \<or> prev_avg = Some 0"
  then show "inflation_segment lib py cy t prev_avg curr_avg = (None, [])"
    by (rule inflation_segment_null)
next
  assume "lib_sub lib 150 100 = 50 \<and> lib_div lib 50 100 = 1 / 2 \<and> lib_mul lib (1 / 2) 100 = 50
        \<and> lib_round2 lib 50 = 50 \<and> lib_str lib 50 = ''50.0''"
  then have h: "lib_sub lib 150 100 = 50" "lib_div lib 50 100 = 1 / 2"
    "lib_mul lib (1 / 2) 100 = 50" "lib_round2 lib 50 = 50" "lib_str lib 50 = ''50.0''"
    by blast+
  have rate: "lib_mul lib (lib_div lib (lib_sub lib 150 100) 100) 100 = 50"
    by (simp only: h)
  show "inflation_segment lib py cy t (Some 100) (Some 150) =
          (Some 50, [''The inflation increased from year '' @ py @ '' to '' @ cy
                       @ '' by 50.0% in the '' @ tier_name t @ '' segment.''])"
    by (simp add: inflation_segment_rate rate h(4,5))
next
  assume "lib_mul lib (lib_div lib (lib_sub lib 100 150) 150) 100 = r \<and> r < 0
        \<and> lib_str lib (lib_round2 lib \<bar>r\<bar>) = ''33.33''"
  then have h: "lib_mul lib (lib_div lib (lib_sub lib 100 150) 150) 100 = r" "r < 0"
    "lib_str lib (lib_round2 lib (- r)) = ''33.33''"
    "lib_str lib (lib_round2 lib \<bar>r\<bar>) = ''33.33''"
    by (auto simp: abs_of_neg)
  from h(2) have h': "\<not> 0 < r"
    by simp
  show "inflation_segment lib py cy t (Some 150) (Some 100) =
          (Some (lib_round2 lib r),
           [''The inflation decreased from year '' @ py @ '' to '' @ cy
              @ '' by 33.33% in the '' @ tier_name t @ '' segment.''])"
    by (simp add: inflation_segment_rate h h')
qed

theorem inflation_between_sorted_years_witness:
  "analyze_data exact_lib
     [JObj [(''fetch_time'', JStr ''2023-01-05T10:00:00''), (''price'', JNum 150)],
      JObj [(''fetch_time'', JStr ''2023-02-05T10:00:00''), (''price'', JNum 99)],
      JObj [(''fetch_time'', JStr ''2022-01-05T10:00:00''), (''price'', JNum 100)],
      JObj [(''fetch_time'', JStr ''2021-03-01T00:00:00''), (''price'', JNum 150)],
      JObj [(''fetch_time'', JStr ''2021-04-01T00:00:00''), (''price'', JNum 800)]]
   = Inr \<lparr>inflation_analysis =
            [''The inflation decreased from year 2021 to 2022 by 33.33% in the low segment.'',
             ''The inflation increased from year 2022 to 2023 by 50.0% in the low segment.''],
          inflation_summary =
            [(''2022'', \<lparr>low = Some (- (3333 / 100)), mid = None, high = None\<rparr>),
             (''2023'', \<lparr>low = Some 50, mid = None, high = None\<rparr>)],
          yearly_segment_summary =
            [(''2021'', \<lparr>low = \<lparr>average = Some 150, maximum = Some 150, minimum = Some 150, stdev = Some 0\<rparr>,
                         mid = \<lparr>average = None, maximum = None, minimum = None, stdev = None\<rparr>,
                         high = \<lparr>average = Some 800, maximum = Some 800, minimum = Some 800, stdev = Some 0\<rparr>\<rparr>),
             (''2022'', \<lparr>low = \<lparr>average = Some 100, maximum = Some 100, minimum = Some 100, stdev = Some 0\<rparr>,
                         mid = \<lparr>average = None, maximum = None, minimum = None, stdev = None\<rparr>,
                         high = \<lparr>average = None, maximum = None, minimum = None, stdev = None\<rparr>\<rparr>),
             (''2023'', \<lparr>low = \<lparr>average = Some 150, maximum = Some 150, minimum = Some 150, stdev = Some 0\<rparr>,
                         mid = \<lparr>average = None, maximum = None, minimum = None, stdev = None\<rparr>,
                         high = \<lparr>average = None, maximum = None, minimum = None, stdev = None\<rparr>\<rparr>)]\<rparr>
   \<and> sorted [''2021'', ''2022'', ''2023'']
   \<and> inflation_segment exact_lib ''2021'' ''2022'' High (Some 800) None = (None, [])
   \<and> inflation_segment exact_lib ''2021'' ''2022'' Mid (Some 400) (Some 400) = (Some 0, [])
   \<and> inflation_segment exact_lib ''2022'' ''2023'' Low (Some 100) (Some 150)
       = (Some 50, [''The inflation increased from year 2022 to 2023 by 50.0% in the low segment.''])
   \<and> inflation_segment exact_lib ''2021'' ''2022'' Low (Some 150) (Some 100)
       = (Some (- (3333 / 100)),
          [''The inflation decreased from year 2021 to 2022 by 33.33% in the low segment.''])"
proof -
  note ex = analyze_data_example
  have r: "exact_round2 50 = 50"
    using exact_round2_fixed [of 5000] by simp
  have q: "exact_round2 (100 / 3) = 3333 / 100" "exact_round2 (- (100 / 3)) = - (3333 / 100)"
    by (simp_all add: exact_round2_def round_half_even_def)
  have s: "hundredths_str 50 = ''50.0''" "hundredths_str (3333 / 100) = ''33.33''"
    by code_simp+
  have h1: "lib_sub exact_lib 150 100 = 50 \<and> lib_div exact_lib 50 100 = 1 / 2
      \<and> lib_mul exact_lib (1 / 2) 100 = 50 \<and> lib_round2 exact_lib 50 = 50
      \<and> lib_str exact_lib 50 = ''50.0''"
    by (simp add: exact_lib_def r s)
  have h2: "lib_mul exact_lib (lib_div exact_lib (lib_sub exact_lib 100 150) 150) 100 = - (100 / 3)
      \<and> - (100 / 3) < (0::real)
      \<and> lib_str exact_lib (lib_round2 exact_lib \<bar>- (100 / 3)\<bar>) = ''33.33''"
    by (simp add: exact_lib_def q s)
  note main = inflation_between_sorted_years
    [where lib = exact_lib and py = "''2021''" and cy = "''2022''" and prev = 150 and cur = 100
      and prev_avg = "Some 800" and curr_avg = None and r = "- (100 / 3)"]
  have a: "sorted [''2021'', ''2022'', ''2023'']"
    using main [THEN conjunct1, rule_format, OF ex] by simp
  have b: "inflation_segment exact_lib ''2021'' ''2022'' High (Some 800) None = (None, [])"
    using main [where t = High, THEN conjunct2, THEN conjunct2, THEN conjunct1] by simp
  have c: "inflation_segment exact_lib ''2022'' ''2023'' Low (Some 100) (Some 150)
       = (Some 50, [''The inflation increased from year 2022 to 2023 by 50.0% in the low segment.''])"
    using inflation_between_sorted_years
      [where lib = exact_lib and py = "''2022''" and cy = "''2023''" and t = Low,
        THEN conjunct2, THEN conjunct2, THEN conjunct2, THEN conjunct1, rule_format, OF h1]
    by simp
  have d: "inflation_segment exact_lib ''2021'' ''2022'' Low (Some 150) (Some 100)
       = (Some (- (3333 / 100)),
          [''The inflation decreased from year 2021 to 2022 by 33.33% in the low segment.''])"
    using main [where t = Low, THEN conjunct2, THEN conjunct2, THEN conjunct2, THEN conjunct2,
        rule_format, OF h2]
    by (simp add: exact_lib_def q)
  have z: "exact_round2 0 = 0"
    using exact_round2_fixed [of 0] by simp
  have e: "inflation_segment exact_lib ''2021'' ''2022'' Mid (Some 400) (Some 400) = (Some 0, [])"
    using inflation_between_sorted_years
      [where lib = exact_lib and py = "''2021''" and cy = "''2022''" and t = Mid
        and prev = 400 and cur = 400, THEN conjunct2, THEN conjunct1]
    by (simp add: exact_lib_def z)
  from ex a b c d e show ?thesis
    by simp
qed



end
